theory Spec2Isabelle
  imports Main "HOL-Library.AList"
begin

section \<open>JavaScript values\<close>

text \<open>
  The profile manager is JavaScript: its data are dynamically typed objects (capabilities,
  agent records, option objects). They are embedded as one datatype of JSON-like values.
  An object is an association list in insertion order; writing a property replaces the
  value of an existing key in place and appends a new key at the end
  (\<open>AList.update\<close>), reading a missing property gives \<open>undefined\<close>.
  Objects are plain data: properties inherited from a prototype are not modelled, integer-like
  keys are not moved to the front, and two objects are compared by their contents.
  Numbers are integers.
\<close>

datatype jv =
    JUndef
  | JNull
  | JBool bool
  | JNum int
  | JStr string
  | JArr "jv list"
  | JObj "(string \<times> jv) list"

fun truthy :: "jv \<Rightarrow> bool" where
  "truthy JUndef = False"
| "truthy JNull = False"
| "truthy (JBool b) = b"
| "truthy (JNum n) = (n \<noteq> 0)"
| "truthy (JStr s) = (s \<noteq> [])"
| "truthy (JArr xs) = True"
| "truthy (JObj kvs) = True"

fun nullish :: "jv \<Rightarrow> bool" where
  "nullish JUndef = True"
| "nullish JNull = True"
| "nullish v = False"

fun showNat :: "nat \<Rightarrow> string" where
  "showNat n =
     (if n < 10 then [char_of (48 + n)]
      else showNat (n div 10) @ [char_of (48 + n mod 10)])"

definition showInt :: "int \<Rightarrow> string" where
  "showInt i = (if i < 0 then CHR ''-'' # showNat (nat (- i)) else showNat (nat i))"

fun joinWith :: "string \<Rightarrow> string list \<Rightarrow> string" where
  "joinWith sep [] = []"
| "joinWith sep [x] = x"
| "joinWith sep (x # y # ys) = x @ sep @ joinWith sep (y # ys)"

text \<open>\<open>toStr v\<close> is the string a template literal \<open>`${v}`\<close> or a property key \<open>o[v]\<close>
  makes of \<open>v\<close>.\<close>

fun toStr :: "jv \<Rightarrow> string" where
  "toStr JUndef = ''undefined''"
| "toStr JNull = ''null''"
| "toStr (JBool b) = (if b then ''true'' else ''false'')"
| "toStr (JNum n) = showInt n"
| "toStr (JStr s) = s"
| "toStr (JArr xs) = joinWith '','' (map (\<lambda>x. if nullish x then [] else toStr x) xs)"
| "toStr (JObj kvs) = ''[object Object]''"

text \<open>The own enumerable properties an object spread \<open>{...v}\<close> copies.\<close>

fun spread :: "jv \<Rightarrow> (string \<times> jv) list" where
  "spread (JObj kvs) = kvs"
| "spread (JArr xs) = zip (map showNat [0..<length xs]) xs"
| "spread (JStr s) = zip (map showNat [0..<length s]) (map (\<lambda>c. JStr [c]) s)"
| "spread v = []"

text \<open>An object literal: the properties are written in order, a later one replacing an
  earlier one of the same key.\<close>

definition mkObj :: "(string \<times> jv) list \<Rightarrow> jv" where
  "mkObj kvs = JObj (foldl (\<lambda>acc kv. AList.update (fst kv) (snd kv) acc) [] kvs)"

text \<open>\<open>fld v k\<close> reads property \<open>k\<close> of a value that is neither \<open>undefined\<close> nor
  \<open>null\<close>; the names the code reads are no properties of strings, numbers or arrays.\<close>

fun fld :: "jv \<Rightarrow> string \<Rightarrow> jv" where
  "fld (JObj kvs) k = (case map_of kvs k of None \<Rightarrow> JUndef | Some v \<Rightarrow> v)"
| "fld v k = JUndef"

definition setProp :: "jv \<Rightarrow> string \<Rightarrow> jv \<Rightarrow> jv" where
  "setProp obj k v = (case obj of JObj kvs \<Rightarrow> JObj (AList.update k v kvs) | _ \<Rightarrow> obj)"

definition isArray :: "jv \<Rightarrow> bool" where
  "isArray v = (case v of JArr xs \<Rightarrow> True | _ \<Rightarrow> False)"

definition elems :: "jv \<Rightarrow> jv list" where
  "elems v = (case v of JArr xs \<Rightarrow> xs | _ \<Rightarrow> [])"

definition startsWith :: "string \<Rightarrow> string \<Rightarrow> bool" where
  "startsWith s p = (take (length p) s = p)"

definition endsWith :: "string \<Rightarrow> string \<Rightarrow> bool" where
  "endsWith s p = (length p \<le> length s \<and> drop (length s - length p) s = p)"

fun includesStr :: "string \<Rightarrow> string \<Rightarrow> bool" where
  "includesStr [] p = (p = [])"
| "includesStr (c # cs) p = (startsWith (c # cs) p \<or> includesStr cs p)"

section \<open>Errors, the manager's state and the collaborators\<close>

text \<open>
  Every \<open>throw\<close> and every rejected promise is a value.
  \<^item> \<open>AssertError f\<close>: the \<open>TypeError\<close> of \<open>assert.nonEmptyString(x, f)\<close>, whose message
    names the field \<open>f\<close>;
  \<^item> \<open>NativeTypeError p\<close>: the \<open>TypeError\<close> the engine raises when property \<open>p\<close> of
    \<open>undefined\<close> or \<open>null\<close> is read or destructured (its message is the engine's);
  \<^item> \<open>TypeErrorMsg m\<close> and \<open>ErrorMsg m\<close>: \<open>new TypeError(m)\<close> and \<open>new Error(m)\<close>;
  \<^item> \<open>Rejected v\<close>: a collaborator's failure, propagated unchanged.
\<close>

datatype error =
    AssertError string
  | NativeTypeError string
  | TypeErrorMsg string
  | ErrorMsg string
  | Rejected jv

text \<open>The operations of the external collaborators, each with the argument it is given.\<close>

datatype call =
    GetAgentByProfile jv
  | DelegateAgentCapabilities jv
  | UpdateAgentCapabilitySet jv
  | EdvEnsureIndex jv jv
  | EdvGenerateId
  | EdvCreateEdv jv
  | EdvDocumentWrite jv jv
  | EdvDocumentRead jv
  | KmsGetKeystore jv
  | KeystoreGenerateKey jv jv
  | DelegateCapability jv
  | CapabilityAgentClearCache jv
  | CapabilityAgentFromCache jv
  | CapabilityAgentFromSecret jv
  | GetRandomValues nat
  | EdvClientCacheClear

text \<open>
  The collaborators are parameters. \<open>respond\<close> gives the outcome of an operation from the
  operations made before it, so a collaborator may keep state; \<open>latency\<close> is the time in
  milliseconds the operation takes. \<open>construct c opts\<close> is the instance \<open>new c(opts)\<close> of
  an external class, \<open>getSigner a\<close> the result of \<open>a.getSigner()\<close> on a capability agent and
  \<open>deriveKeystoreId\<close> the helper of that name of \<open>utils.js\<close>, which is not among the sources;
  \<open>isoDate t\<close> is \<open>(new Date()).toISOString()\<close> at time \<open>t\<close>.
\<close>

record env =
  respond :: "call list \<Rightarrow> call \<Rightarrow> error + jv"
  latency :: "call list \<Rightarrow> call \<Rightarrow> nat"
  construct :: "string \<Rightarrow> jv \<Rightarrow> jv"
  getSigner :: "jv \<Rightarrow> jv"
  deriveKeystoreId :: "jv \<Rightarrow> error + jv"
  isoDate :: "nat \<Rightarrow> string"

text \<open>
  Modelled from the spec: the class \<open>Cache\<close> of \<open>cache.js\<close>, which is not among the sources
  (``generic key\<open>\<rightarrow>\<close>value store with optional max-age'', an entry being
  \<open>(key, value, insertedAt, maxAge?)\<close> that ``expires by age or is cleared en masse'').
\<close>

record 'v cache =
  maxAge :: "nat option"
  entries :: "string \<rightharpoonup> ('v \<times> nat)"

definition newCache :: "nat option \<Rightarrow> 'v cache" where
  "newCache age = \<lparr>maxAge = age, entries = Map.empty\<rparr>"

definition cache_lookup :: "nat \<Rightarrow> 'v cache \<Rightarrow> string \<Rightarrow> 'v option" where
  "cache_lookup t c k =
     (case entries c k of
        None \<Rightarrow> None
      | Some (v, insertedAt) \<Rightarrow>
          (case maxAge c of
             None \<Rightarrow> Some v
           | Some age \<Rightarrow> if t - insertedAt > age then None else Some v))"

text \<open>\<open>c.get(k)\<close>: the value, or \<open>undefined\<close>.\<close>

definition cache_get :: "nat \<Rightarrow> jv cache \<Rightarrow> string \<Rightarrow> jv" where
  "cache_get t c k = (case cache_lookup t c k of None \<Rightarrow> JUndef | Some v \<Rightarrow> v)"

definition cache_set :: "nat \<Rightarrow> 'v cache \<Rightarrow> string \<Rightarrow> 'v \<Rightarrow> 'v cache" where
  "cache_set t c k v = c\<lparr>entries := (entries c)(k \<mapsto> (v, t))\<rparr>"

text \<open>
  The fields the constructor of \<open>ProfileManager\<close> sets, with the log of the collaborator
  operations made so far and the clock. \<open>pm_cache\<close> is \<open>this._cache\<close>, a cache of caches (one
  per namespace); \<open>pm_requests\<close> is \<open>this._requests\<close>, the promises in flight, each with the
  outcome it settles to. Both are made by \<open>new Cache()\<close> with no max-age and never replaced,
  so their entries do not expire: they are maps.
\<close>

record pm =
  accountId :: jv
  capabilityAgent :: jv
  keystoreAgent :: jv
  kmsModule :: jv
  edvBaseUrl :: jv
  kmsBaseUrl :: jv
  pm_cache :: "string \<rightharpoonup> jv cache"
  pm_requests :: "string \<rightharpoonup> (error + jv)"
  calls :: "call list"
  clock :: nat

section \<open>Asynchronous methods as state transformers\<close>

text \<open>
  An \<open>async\<close> method is a function from the manager's state to an outcome (\<open>Inl\<close> the error
  it rejects with) and the new state. An awaited operation runs to its end before the next
  statement; what a \<open>throw\<close> leaves of the state stays. A method's options object is given
  field by field, a field the caller leaves out being \<open>undefined\<close>.
\<close>

type_synonym 'a M = "pm \<Rightarrow> (error + 'a) \<times> pm"

definition ret :: "'a \<Rightarrow> 'a M" where
  "ret x = (\<lambda>s. (Inr x, s))"

definition throw :: "error \<Rightarrow> 'a M" where
  "throw e = (\<lambda>s. (Inl e, s))"

definition bnd :: "'a M \<Rightarrow> ('a \<Rightarrow> 'b M) \<Rightarrow> 'b M" where
  "bnd m f = (\<lambda>s. case m s of (Inl e, s') \<Rightarrow> (Inl e, s') | (Inr x, s') \<Rightarrow> f x s')"

text \<open>Awaiting a promise that settles to \<open>r\<close>.\<close>

definition settle :: "(error + 'a) \<Rightarrow> 'a M" where
  "settle r = (\<lambda>s. (r, s))"

text \<open>Starting an operation without awaiting it: its promise, with the outcome it settles
  to.\<close>

definition startPromise :: "'a M \<Rightarrow> (error + 'a) M" where
  "startPromise m = (\<lambda>s. case m s of (r, s') \<Rightarrow> (Inr r, s'))"

definition modify :: "(pm \<Rightarrow> pm) \<Rightarrow> unit M" where
  "modify f = (\<lambda>s. (Inr (), f s))"

definition reads :: "(pm \<Rightarrow> 'a) \<Rightarrow> 'a M" where
  "reads f = (\<lambda>s. (Inr (f s), s))"

text \<open>\<open>try { m } finally { fin }\<close>, for a \<open>fin\<close> that does not throw.\<close>

definition tryFinally :: "'a M \<Rightarrow> unit M \<Rightarrow> 'a M" where
  "tryFinally m fin = (\<lambda>s. case m s of (r, s1) \<Rightarrow> (r, snd (fin s1)))"

text \<open>Reading or destructuring property \<open>k\<close> of \<open>v\<close>: a \<open>TypeError\<close> on \<open>undefined\<close> and
  \<open>null\<close>.\<close>

definition getProp :: "jv \<Rightarrow> string \<Rightarrow> jv M" where
  "getProp v k = (if nullish v then throw (NativeTypeError k) else ret (fld v k))"

text \<open>A destructured parameter or property with a default value.\<close>

definition dflt :: "jv \<Rightarrow> jv \<Rightarrow> jv" where
  "dflt v d = (if v = JUndef then d else v)"

text \<open>The elements a \<open>for ... of\<close> loop or an array spread \<open>[...v]\<close> runs through.\<close>

definition iter :: "jv \<Rightarrow> jv list M" where
  "iter v =
     (case v of
        JArr xs \<Rightarrow> ret xs
      | JStr s \<Rightarrow> ret (map (\<lambda>c. JStr [c]) s)
      | _ \<Rightarrow> throw (NativeTypeError ''Symbol.iterator''))"

text \<open>\<open>Promise.all\<close>: every operation is started, in order; the result is the list of the
  values, or the first failure in that order.\<close>

fun promiseAll :: "'a M list \<Rightarrow> 'a list M" where
  "promiseAll [] = ret []"
| "promiseAll (m # ms) =
     (\<lambda>s. case m s of (r, s1) \<Rightarrow>
        (case promiseAll ms s1 of (rs, s2) \<Rightarrow>
           ((case r of
               Inl e \<Rightarrow> Inl e
             | Inr x \<Rightarrow> (case rs of Inl e' \<Rightarrow> Inl e' | Inr xs \<Rightarrow> Inr (x # xs))), s2)))"

text \<open>An operation of a collaborator: it is logged, takes its time and gives the
  collaborator's outcome.\<close>

definition collab :: "env \<Rightarrow> call \<Rightarrow> jv M" where
  "collab env c =
     (\<lambda>s. (respond env (calls s) c,
            s\<lparr>calls := calls s @ [c], clock := clock s + latency env (calls s) c\<rparr>))"

text \<open>
  Modelled from the spec: \<open>assert.nonEmptyString\<close> of \<open>assert.js\<close>, which is not among the
  sources (``validating non-empty-string identifiers'': an identifier that is \<open>undefined\<close>,
  \<open>''\<close> or no string is rejected with a \<open>TypeError\<close> naming the field).
\<close>

definition nonEmptyString :: "jv \<Rightarrow> string \<Rightarrow> unit M" where
  "nonEmptyString x name =
     (case x of
        JStr s \<Rightarrow> if s = [] then throw (AssertError name) else ret ()
      | _ \<Rightarrow> throw (AssertError name))"

text \<open>
  Modelled from the spec: \<open>utils.delegateCapability\<close> of \<open>utils.js\<close>, which is not among the
  sources (``delegate(signer, request) \<open>\<rightarrow>\<close> signed capability (attaches the cryptographic
  delegation proof; out of scope here)''): the capability is the request with the proof the
  delegation collaborator gives for the options.
\<close>

definition utils_delegateCapability :: "env \<Rightarrow> jv \<Rightarrow> jv M" where
  "utils_delegateCapability env opts =
     bnd (collab env (DelegateCapability opts)) (\<lambda>proof.
     ret (mkObj (spread (fld opts ''request'') @ [(''proof'', proof)])))"

subsection \<open>The caches of the manager\<close>

text \<open>\<open>if(!this._cache.has(ns)) { this._cache.set(ns, new Cache({maxAge})); }\<close>\<close>

definition ensureNamespace :: "string \<Rightarrow> nat option \<Rightarrow> unit M" where
  "ensureNamespace ns age =
     modify (\<lambda>s. if pm_cache s ns \<noteq> None then s
                  else s\<lparr>pm_cache := (pm_cache s)(ns \<mapsto> newCache age)\<rparr>)"

text \<open>\<open>this._cache.get(ns).get(key)\<close>; \<open>this._cache.clear()\<close> is \<open>resetCache\<close> below.\<close>

definition nsGet :: "string \<Rightarrow> string \<Rightarrow> jv M" where
  "nsGet ns key =
     (\<lambda>s. case pm_cache s ns of
             None \<Rightarrow> (Inl (NativeTypeError ''get''), s)
           | Some c \<Rightarrow> (Inr (cache_get (clock s) c key), s))"

text \<open>\<open>c.set(key, v)\<close> on the cache \<open>c\<close> that \<open>this._cache.get(ns)\<close> gave before: the cache
  object is changed in place; when it is no longer in \<open>this._cache\<close>, nothing of the manager
  changes.\<close>

definition nsSet :: "string \<Rightarrow> string \<Rightarrow> jv \<Rightarrow> unit M" where
  "nsSet ns key v =
     modify (\<lambda>s. case pm_cache s ns of
                    None \<Rightarrow> s
                  | Some c \<Rightarrow> s\<lparr>pm_cache := (pm_cache s)(ns \<mapsto> cache_set (clock s) c key v)\<rparr>)"

definition requestsGet :: "string \<Rightarrow> (error + jv) option M" where
  "requestsGet key = reads (\<lambda>s. pm_requests s key)"

definition requestsSet :: "string \<Rightarrow> (error + jv) \<Rightarrow> unit M" where
  "requestsSet key p =
     modify (\<lambda>s. s\<lparr>pm_requests := (pm_requests s)(key \<mapsto> p)\<rparr>)"

definition requestsDelete :: "string \<Rightarrow> unit M" where
  "requestsDelete key = modify (\<lambda>s. s\<lparr>pm_requests := (pm_requests s)(key := None)\<rparr>)"

text \<open>
  A method that shares its promise: up to its \<open>await promise\<close> it either has a cached
  value to return (\<open>Ready\<close>), or finds a promise in flight under its key and returns it
  (\<open>Joined\<close>), or starts its own and registers it (\<open>Started\<close>); after the \<open>await\<close> the
  one that started the promise removes the entry.
\<close>

datatype 'a pending = Ready 'a | Joined "error + 'a" | Started "error + 'a"

subsection \<open>Signers\<close>

definition JWE_ALG :: string where
  "JWE_ALG = ''ECDH-ES+A256KW''"

definition PROFILE_INVOCATION_ZCAP_REFERENCE_ID :: string where
  "PROFILE_INVOCATION_ZCAP_REFERENCE_ID = ''profile-capability-invocation-key''"

definition EDVS_profileDoc :: string where
  "EDVS_profileDoc = ''profile-edv-document''"

definition EDVS_userDocs :: string where
  "EDVS_userDocs = ''user-edv-documents''"

definition EDVS_userKak :: string where
  "EDVS_userKak = ''user-edv-kak''"

definition EDVS_userHmac :: string where
  "EDVS_userHmac = ''user-edv-hmac''"

text \<open>The imported \<open>keyResolver\<close>, an opaque value handed to the storage client.\<close>

definition keyResolver :: jv where
  "keyResolver = JStr ''keyResolver''"

text \<open>\<open>this.capabilityAgent.getSigner()\<close>\<close>

definition capabilityAgent_getSigner :: "env \<Rightarrow> jv M" where
  "capabilityAgent_getSigner env =
     bnd (reads capabilityAgent) (\<lambda>agent.
     if nullish agent then throw (NativeTypeError ''getSigner'')
     else ret (getSigner env agent))"

definition getInvocationSigner :: "env \<Rightarrow> jv \<Rightarrow> jv \<Rightarrow> jv M" where
  "getInvocationSigner env profileAgentId capabilityInvoker =
     bnd (nonEmptyString capabilityInvoker ''capabilityInvoker'') (\<lambda>_.
     bnd (ensureNamespace ''invocation-signers'' None) (\<lambda>_.
     let cacheKey = toStr profileAgentId @ ''-'' @ toStr capabilityInvoker in
     bnd (nsGet ''invocation-signers'' cacheKey) (\<lambda>cached.
     if truthy cached then ret cached
     else
       bnd (if capabilityInvoker = JStr ''local'' then capabilityAgent_getSigner env
            else if capabilityInvoker = JStr ''agent'' then
              (if \<not> truthy profileAgentId then
                 throw (ErrorMsg ''\"profileAgentId\" is required for an agent signer.'')
               else
                 bnd (reads accountId) (\<lambda>account.
                 bnd (reads capabilityAgent) (\<lambda>agent.
                 bnd (getProp agent ''id'') (\<lambda>invoker.
                 bnd (collab env (DelegateAgentCapabilities (JObj [
                        (''account'', account),
                        (''invoker'', invoker),
                        (''profileAgentId'', profileAgentId)]))) (\<lambda>delegated.
                 bnd (getProp delegated ''zcap'') (\<lambda>zcap.
                 bnd (capabilityAgent_getSigner env) (\<lambda>signer.
                 ret (construct env ''AsymmetricKey'' (JObj [
                   (''capability'', zcap), (''invocationSigner'', signer)])))))))))
            else throw (ErrorMsg ''Unsupported invoker for capability.''))
         (\<lambda>invocationSigner.
       bnd (nsSet ''invocation-signers'' cacheKey invocationSigner) (\<lambda>_.
       ret invocationSigner)))))"

subsection \<open>Helper functions of the module\<close>

definition getKeystoreId :: "env \<Rightarrow> jv \<Rightarrow> jv M" where
  "getKeystoreId env zcap =
     bnd (getProp zcap ''invocationTarget'') (\<lambda>invocationTarget.
     if \<not> truthy invocationTarget then
       throw (ErrorMsg ''\"invocationTarget\" not found on zCap.'')
     else (case invocationTarget of
        JStr s \<Rightarrow> settle (deriveKeystoreId env invocationTarget)
      | _ \<Rightarrow>
         (case fld invocationTarget ''id'' of
            JStr i \<Rightarrow>
              if i \<noteq> [] then settle (deriveKeystoreId env (JStr i))
              else throw (ErrorMsg ''\"invocationTarget\" does not contain a proper id.'')
          | _ \<Rightarrow> throw (ErrorMsg ''\"invocationTarget\" does not contain a proper id.''))))"

text \<open>The first key of \<open>zcaps\<close> that starts with the profile's id and ends with
  \<open>-key-capabilityInvocation\<close>, or \<open>undefined\<close>.\<close>

definition getProfileInvocationZcapKeyReferenceId :: "jv \<Rightarrow> jv \<Rightarrow> jv M" where
  "getProfileInvocationZcapKeyReferenceId profileId zcaps =
     (if nullish zcaps then throw (NativeTypeError ''keys'')
      else ret (case find (\<lambda>referenceId.
                    startsWith referenceId (toStr profileId) \<and>
                    endsWith referenceId ''-key-capabilityInvocation'')
                  (map fst (spread zcaps)) of
                  None \<Rightarrow> JUndef
                | Some referenceId \<Rightarrow> JStr referenceId))"

subsection \<open>Agent records and capabilities\<close>

definition getAgentRecord_begin :: "env \<Rightarrow> jv \<Rightarrow> (string \<times> jv pending) M" where
  "getAgentRecord_begin env profileId =
     bnd (ensureNamespace ''agent-records'' (Some 250)) (\<lambda>_.
     let recordKey = ''agent-records-'' @ toStr profileId in
     bnd (nsGet ''agent-records'' recordKey) (\<lambda>agentRecord.
     if truthy agentRecord then ret (recordKey, Ready agentRecord)
     else
       bnd (requestsGet recordKey) (\<lambda>found.
       case found of
         Some promise \<Rightarrow> ret (recordKey, Joined promise)
       | None \<Rightarrow>
           bnd (reads accountId) (\<lambda>account.
           bnd (startPromise (collab env (GetAgentByProfile (JObj [
                  (''profile'', profileId), (''account'', account)])))) (\<lambda>promise.
           bnd (requestsSet recordKey promise) (\<lambda>_.
           ret (recordKey, Started promise)))))))"

definition getAgentRecord_end :: "string \<times> jv pending \<Rightarrow> jv M" where
  "getAgentRecord_end kp =
     (case kp of
        (recordKey, Ready agentRecord) \<Rightarrow> ret agentRecord
      | (recordKey, Joined promise) \<Rightarrow> settle promise
      | (recordKey, Started promise) \<Rightarrow>
          tryFinally
            (bnd (settle promise) (\<lambda>record.
             bnd (nsSet ''agent-records'' recordKey record) (\<lambda>_.
             ret record)))
            (requestsDelete recordKey))"

definition getAgentRecord :: "env \<Rightarrow> jv \<Rightarrow> jv M" where
  "getAgentRecord env profileId = bnd (getAgentRecord_begin env profileId) getAgentRecord_end"

text \<open>The body of the promise of \<open>getCapability\<close>.\<close>

definition getCapability_body ::
    "env \<Rightarrow> string \<Rightarrow> string \<Rightarrow> jv \<Rightarrow> jv \<Rightarrow> jv \<Rightarrow> jv \<Rightarrow> jv M" where
  "getCapability_body env capabilityCacheKey capabilityKey zcapId profileAgent profileId
       capabilityInvoker =
     bnd (nsGet capabilityCacheKey capabilityKey) (\<lambda>cached.
     if truthy cached then ret cached
     else
       bnd (getInvocationSigner env (fld profileAgent ''id'') (JStr ''agent'')) (\<lambda>agentSigner.
       bnd (if zcapId = JStr PROFILE_INVOCATION_ZCAP_REFERENCE_ID then
              bnd (nonEmptyString profileId ''profileId'') (\<lambda>_.
              getProfileInvocationZcapKeyReferenceId profileId (fld profileAgent ''zcaps''))
            else ret zcapId) (\<lambda>referenceId.
       bnd (getProp (fld profileAgent ''zcaps'') (toStr referenceId)) (\<lambda>originalZcap.
       if \<not> truthy originalZcap then
         throw (ErrorMsg (''The agent \"'' @ toStr (fld profileAgent ''id'') @
           ''\" does not have the zcap: \"'' @ toStr referenceId @ ''\"''))
       else
         bnd (if capabilityInvoker = JStr ''local'' then
                bnd (getInvocationSigner env JUndef (JStr ''local'')) (\<lambda>localSigner.
                bnd (getProp localSigner ''id'') (\<lambda>localSignerId.
                utils_delegateCapability env (JObj [
                  (''signer'', agentSigner),
                  (''request'', mkObj (spread originalZcap @ [
                     (''parentCapability'', originalZcap),
                     (''controller'', localSignerId)]))])))
              else if capabilityInvoker = JStr ''agent'' then ret originalZcap
              else throw (ErrorMsg ''Unsupported invoker for capability.'')) (\<lambda>zcap.
         bnd (nsSet capabilityCacheKey capabilityKey zcap) (\<lambda>_.
         ret zcap))))))"

definition getCapability_begin ::
    "env \<Rightarrow> jv \<Rightarrow> jv \<Rightarrow> jv \<Rightarrow> jv \<Rightarrow> (string \<times> jv pending) M" where
  "getCapability_begin env zcapId profileAgent profileId capabilityInvoker0 =
     (let capabilityInvoker = dflt capabilityInvoker0 (JStr ''local'') in
      bnd (getProp profileAgent ''id'') (\<lambda>profileAgentId.
      let capabilityCacheKey = ''profileAgent-'' @ toStr profileAgentId @ ''-zcaps'';
          capabilityKey =
            capabilityCacheKey @ ''-'' @ toStr zcapId @ ''-'' @ toStr capabilityInvoker
      in
      bnd (ensureNamespace capabilityCacheKey None) (\<lambda>_.
      bnd (requestsGet capabilityKey) (\<lambda>found.
      case found of
        Some promise \<Rightarrow> ret (capabilityKey, Joined promise)
      | None \<Rightarrow>
          bnd (startPromise (getCapability_body env capabilityCacheKey capabilityKey zcapId
                 profileAgent profileId capabilityInvoker)) (\<lambda>promise.
          bnd (requestsSet capabilityKey promise) (\<lambda>_.
          ret (capabilityKey, Started promise)))))))"

definition getCapability_end :: "string \<times> jv pending \<Rightarrow> jv M" where
  "getCapability_end kp =
     (case kp of
        (capabilityKey, Ready zcap) \<Rightarrow> ret zcap
      | (capabilityKey, Joined promise) \<Rightarrow> settle promise
      | (capabilityKey, Started promise) \<Rightarrow>
          tryFinally (settle promise) (requestsDelete capabilityKey))"

definition getCapability :: "env \<Rightarrow> jv \<Rightarrow> jv \<Rightarrow> jv \<Rightarrow> jv \<Rightarrow> jv M" where
  "getCapability env zcapId profileAgent profileId capabilityInvoker =
     bnd (getCapability_begin env zcapId profileAgent profileId capabilityInvoker)
       getCapability_end"

subsection \<open>Profile agents\<close>

text \<open>\<open>Object.values(v)\<close>\<close>

definition objectValues :: "jv \<Rightarrow> jv list M" where
  "objectValues v =
     (if nullish v then throw (NativeTypeError ''values'') else ret (map snd (spread v)))"

text \<open>\<open>for(const zcap of zcaps) { acc[zcap.referenceId] = zcap; }\<close>\<close>

fun zcapsByReferenceId :: "jv list \<Rightarrow> (string \<times> jv) list \<Rightarrow> error + (string \<times> jv) list" where
  "zcapsByReferenceId [] acc = Inr acc"
| "zcapsByReferenceId (zcap # zcaps) acc =
     (if nullish zcap then Inl (NativeTypeError ''referenceId'')
      else zcapsByReferenceId zcaps (AList.update (toStr (fld zcap ''referenceId'')) zcap acc))"

text \<open>The loop of \<open>_getAgentContent\<close> that adds the capabilities of the agent record to the
  content read from the store, keeping those the content already has. A value that is no
  object keeps no property in this model.\<close>

fun mergeRecordZcaps :: "jv \<Rightarrow> jv list \<Rightarrow> error + jv" where
  "mergeRecordZcaps content [] = Inr content"
| "mergeRecordZcaps content (zcap # zcaps) =
     (if nullish zcap then Inl (NativeTypeError ''referenceId'')
      else if nullish content then Inl (NativeTypeError ''zcaps'')
      else if nullish (fld content ''zcaps'') then
        Inl (NativeTypeError (toStr (fld zcap ''referenceId'')))
      else if truthy (fld (fld content ''zcaps'') (toStr (fld zcap ''referenceId''))) then
        mergeRecordZcaps content zcaps
      else
        mergeRecordZcaps
          (setProp content ''zcaps''
             (setProp (fld content ''zcaps'') (toStr (fld zcap ''referenceId'')) zcap))
          zcaps)"

definition getAgentContent :: "env \<Rightarrow> jv \<Rightarrow> jv \<Rightarrow> jv M" where
  "getAgentContent env profileAgentRecord capabilityInvoker0 =
     (let capabilityInvoker = dflt capabilityInvoker0 (JStr ''local'') in
      bnd (ensureNamespace ''agent-content'' None) (\<lambda>_.
      bnd (getProp profileAgentRecord ''profileAgent'') (\<lambda>profileAgent.
      bnd (getProp profileAgent ''id'') (\<lambda>agentId.
      let account = fld profileAgent ''account'';
          profileId = fld profileAgent ''profile'';
          sequence = fld profileAgent ''sequence'';
          contentKey = toStr agentId @ toStr account @ toStr profileId @ toStr sequence
      in
      bnd (nsGet ''agent-content'' contentKey) (\<lambda>agentContent.
      if truthy agentContent then ret agentContent
      else
        bnd (getCapability env (JStr ''userDocument'') profileAgent JUndef capabilityInvoker)
          (\<lambda>capability.
        bnd (getCapability env (JStr ''userKak'') profileAgent JUndef capabilityInvoker)
          (\<lambda>userKak.
        bnd (getInvocationSigner env agentId capabilityInvoker) (\<lambda>invocationSigner.
        if \<not> truthy capability then
          throw (ErrorMsg ''Profile access management not initialized.'')
        else
          bnd (requestsGet contentKey) (\<lambda>found.
          case found of
            Some promise \<Rightarrow> settle promise
          | None \<Rightarrow>
              bnd (startPromise (
                     bnd (getProp userKak ''invocationTarget'') (\<lambda>target.
                     bnd (getProp target ''id'') (\<lambda>targetId.
                     bnd (collab env (EdvDocumentRead (construct env ''EdvDocument'' (JObj [
                            (''capability'', capability),
                            (''keyAgreementKey'', construct env ''KeyAgreementKey'' (JObj [
                               (''id'', targetId),
                               (''type'', fld target ''type''),
                               (''capability'', userKak),
                               (''invocationSigner'', invocationSigner)])),
                            (''invocationSigner'', invocationSigner)])))) (\<lambda>doc.
                     bnd (getProp doc ''content'') (\<lambda>content.
                     bnd (objectValues (fld profileAgent ''zcaps'')) (\<lambda>zcaps.
                     settle (mergeRecordZcaps content zcaps)))))))) (\<lambda>promise.
              bnd (requestsSet contentKey promise) (\<lambda>_.
              tryFinally (settle promise) (requestsDelete contentKey))))))))))))"

definition getAgent :: "env \<Rightarrow> jv \<Rightarrow> jv M" where
  "getAgent env profileId =
     bnd (nonEmptyString profileId ''profileId'') (\<lambda>_.
     bnd (getAgentRecord env profileId) (\<lambda>profileAgentRecord.
     bnd (getProp profileAgentRecord ''profileAgent'') (\<lambda>profileAgent.
     bnd (getProp profileAgent ''zcaps'') (\<lambda>zcaps.
     bnd (getProp zcaps ''userDocument'') (\<lambda>capability.
     if \<not> truthy capability then
       bnd (settle (zcapsByReferenceId (map snd (spread zcaps)) [])) (\<lambda>contentZcaps.
       ret (JObj [(''id'', fld profileAgent ''id''), (''zcaps'', JObj contentZcaps)]))
     else getAgentContent env profileAgentRecord JUndef)))))"

subsection \<open>Signing as a profile, reading a profile, keys\<close>

definition getProfileSigner :: "env \<Rightarrow> jv \<Rightarrow> jv \<Rightarrow> jv M" where
  "getProfileSigner env profileId capabilityInvoker0 =
     (let capabilityInvoker = dflt capabilityInvoker0 (JStr ''local'') in
      bnd (nonEmptyString profileId ''profileId'') (\<lambda>_.
      bnd (getAgent env profileId) (\<lambda>profileAgent.
      bnd (getCapability env (JStr PROFILE_INVOCATION_ZCAP_REFERENCE_ID) profileAgent profileId
             capabilityInvoker) (\<lambda>zcap.
      bnd (getProp profileAgent ''id'') (\<lambda>profileAgentId.
      bnd (getInvocationSigner env profileAgentId capabilityInvoker) (\<lambda>signer.
      ret (JObj [(''invocationSigner'', construct env ''AsymmetricKey'' (JObj [
        (''capability'', zcap), (''invocationSigner'', signer)]))])))))))"

definition getProfile :: "env \<Rightarrow> jv \<Rightarrow> jv \<Rightarrow> jv M" where
  "getProfile env profileId capabilityInvoker0 =
     (let capabilityInvoker = dflt capabilityInvoker0 (JStr ''local'') in
      bnd (nonEmptyString profileId ''id'') (\<lambda>_.
      bnd (getAgent env profileId) (\<lambda>profileAgent.
      bnd (bnd (getCapability env (JStr EDVS_profileDoc) profileAgent JUndef capabilityInvoker)
             (\<lambda>first.
           if truthy first then ret first
           else getCapability env (JStr EDVS_userDocs) profileAgent JUndef capabilityInvoker))
        (\<lambda>capability.
      bnd (getCapability env (JStr EDVS_userKak) profileAgent JUndef capabilityInvoker)
        (\<lambda>userKakZcap.
      bnd (getProp profileAgent ''id'') (\<lambda>profileAgentId.
      bnd (getInvocationSigner env profileAgentId capabilityInvoker) (\<lambda>invocationSigner.
      if \<not> truthy capability then
        throw (ErrorMsg (''Profile agent \"'' @ toStr profileAgentId @
          ''\" is not authorized to read profile \"'' @ toStr profileId @ ''\".''))
      else
        bnd (getProp userKakZcap ''invocationTarget'') (\<lambda>target.
        bnd (getProp target ''id'') (\<lambda>targetId.
        bnd (collab env (EdvDocumentRead (construct env ''EdvDocument'' (JObj [
               (''capability'', capability),
               (''keyAgreementKey'', construct env ''KeyAgreementKey'' (JObj [
                  (''id'', targetId),
                  (''type'', fld target ''type''),
                  (''capability'', userKakZcap),
                  (''invocationSigner'', invocationSigner)])),
               (''invocationSigner'', invocationSigner)])))) (\<lambda>doc.
        getProp doc ''content''))))))))))"

definition getProfileKeystoreAgent :: "env \<Rightarrow> jv \<Rightarrow> jv M" where
  "getProfileKeystoreAgent env profileId =
     bnd (nonEmptyString profileId ''profileId'') (\<lambda>_.
     bnd (getProfileSigner env profileId JUndef) (\<lambda>signerResult.
     bnd (getProp signerResult ''invocationSigner'') (\<lambda>invocationSigner.
     bnd (getProp invocationSigner ''capability'') (\<lambda>zcap.
     bnd (getKeystoreId env zcap) (\<lambda>keystoreId.
     bnd (collab env (KmsGetKeystore (JObj [(''id'', keystoreId)]))) (\<lambda>keystore.
     let capabilityAgent' = construct env ''CapabilityAgent'' (JObj [
           (''handle'', JStr ''primary''), (''signer'', invocationSigner)])
     in
     ret (construct env ''KeystoreAgent'' (JObj [
       (''keystore'', keystore), (''capabilityAgent'', capabilityAgent')]))))))))"

definition createEdvRecipientKeys :: "env \<Rightarrow> jv \<Rightarrow> jv M" where
  "createEdvRecipientKeys env profileId =
     bnd (getProfileKeystoreAgent env profileId) (\<lambda>keystoreAgent'.
     bnd (reads kmsModule) (\<lambda>module.
     bnd (promiseAll [
            collab env (KeystoreGenerateKey keystoreAgent' (JObj [
              (''type'', JStr ''keyAgreement''), (''kmsModule'', module)])),
            collab env (KeystoreGenerateKey keystoreAgent' (JObj [
              (''type'', JStr ''hmac''), (''kmsModule'', module)]))]) (\<lambda>keys.
     ret (JObj [(''hmac'', keys ! 1), (''keyAgreementKey'', keys ! 0)]))))"

subsection \<open>Delegating the capabilities of an encrypted store\<close>

definition delegateEdvCapabilities ::
    "env \<Rightarrow> jv \<Rightarrow> jv \<Rightarrow> jv \<Rightarrow> jv \<Rightarrow> jv \<Rightarrow> jv \<Rightarrow> jv \<Rightarrow> jv M" where
  "delegateEdvCapabilities env edvId hmac keyAgreementKey parentCapabilities invocationSigner
       profileAgentId referenceIdPrefix =
     bnd (if truthy edvId then
            ret (JObj [
              (''referenceId'', JStr (toStr referenceIdPrefix @ ''-edv-documents'')),
              (''allowedAction'', JArr [JStr ''read'', JStr ''write'']),
              (''controller'', profileAgentId),
              (''invocationTarget'', JObj [
                 (''id'', JStr (toStr edvId @ ''/documents'')),
                 (''type'', JStr ''urn:edv:documents'')]),
              (''parentCapability'', JStr (toStr edvId @ ''/zcaps/documents''))])
          else
            bnd (getProp parentCapabilities ''edv'') (\<lambda>edv.
            bnd (getProp edv ''invocationTarget'') (\<lambda>target.
            ret (JObj [
              (''referenceId'', JStr (toStr referenceIdPrefix @ ''-edv-documents'')),
              (''allowedAction'', JArr [JStr ''read'', JStr ''write'']),
              (''controller'', profileAgentId),
              (''invocationTarget'', mkObj (spread target)),
              (''parentCapability'', edv)]))))
       (\<lambda>delegateEdvDocumentsRequest.
     bnd (if truthy hmac then
            ret (JObj [
              (''referenceId'', JStr (toStr referenceIdPrefix @ ''-edv-hmac'')),
              (''allowedAction'', JStr ''sign''),
              (''controller'', profileAgentId),
              (''invocationTarget'', JObj [
                 (''id'', fld hmac ''id''),
                 (''type'', fld hmac ''type''),
                 (''verificationMethod'', fld hmac ''id'')]),
              (''parentCapability'', fld hmac ''id'')])
          else
            bnd (getProp parentCapabilities ''hmac'') (\<lambda>parentHmac.
            bnd (getProp parentHmac ''invocationTarget'') (\<lambda>target.
            ret (JObj [
              (''referenceId'', JStr (toStr referenceIdPrefix @ ''-edv-hmac'')),
              (''allowedAction'', JStr ''sign''),
              (''controller'', profileAgentId),
              (''invocationTarget'', mkObj (spread target)),
              (''parentCapability'', parentHmac)]))))
       (\<lambda>delegateEdvHmacRequest.
     bnd (if truthy keyAgreementKey then
            ret (JObj [
              (''referenceId'', JStr (toStr referenceIdPrefix @ ''-edv-kak'')),
              (''allowedAction'', JArr [JStr ''deriveSecret'', JStr ''sign'']),
              (''controller'', profileAgentId),
              (''invocationTarget'', JObj [
                 (''id'', fld keyAgreementKey ''id''),
                 (''type'', fld keyAgreementKey ''type''),
                 (''verificationMethod'', fld keyAgreementKey ''id'')]),
              (''parentCapability'', fld keyAgreementKey ''id'')])
          else
            bnd (getProp parentCapabilities ''keyAgreementKey'') (\<lambda>kak.
            bnd (getProp kak ''invocationTarget'') (\<lambda>target.
            ret (JObj [
              (''referenceId'', JStr (toStr referenceIdPrefix @ ''-edv-kak'')),
              (''allowedAction'', JArr [JStr ''deriveSecret'', JStr ''sign'']),
              (''controller'', profileAgentId),
              (''invocationTarget'', mkObj (spread target)),
              (''parentCapability'', kak)]))))
       (\<lambda>delegateEdvKakRequest.
     bnd (promiseAll [
            utils_delegateCapability env (JObj [
              (''signer'', invocationSigner), (''request'', delegateEdvDocumentsRequest)]),
            utils_delegateCapability env (JObj [
              (''signer'', invocationSigner), (''request'', delegateEdvHmacRequest)]),
            utils_delegateCapability env (JObj [
              (''signer'', invocationSigner), (''request'', delegateEdvKakRequest)])])
       (\<lambda>zcaps.
     ret (JObj [(''zcaps'', JArr zcaps)])))))"

text \<open>The target of a capability for one document: the given target, or the document
  \<open>docId\<close> under the documents of the store.\<close>

definition documentTarget :: "jv \<Rightarrow> jv \<Rightarrow> jv \<Rightarrow> jv \<Rightarrow> jv M" where
  "documentTarget edvId docId invocationTarget edvParentCapability =
     (if truthy invocationTarget then ret (mkObj (spread invocationTarget))
      else
        bnd (if truthy edvId then ret (JStr (toStr edvId @ ''/documents''))
             else bnd (getProp edvParentCapability ''invocationTarget'') (\<lambda>target.
                  getProp target ''id'')) (\<lambda>documentsUrl.
        ret (JObj [
          (''id'', JStr (toStr documentsUrl @ ''/'' @ toStr docId)),
          (''type'', JStr ''urn:edv:document'')])))"

definition delegateProfileUserDocZcap ::
    "env \<Rightarrow> jv \<Rightarrow> jv \<Rightarrow> jv \<Rightarrow> jv \<Rightarrow> jv \<Rightarrow> jv \<Rightarrow> jv M" where
  "delegateProfileUserDocZcap env edvId profileAgentId docId invocationTarget
       edvParentCapability invocationSigner =
     bnd (documentTarget edvId docId invocationTarget edvParentCapability) (\<lambda>target.
     utils_delegateCapability env (JObj [
       (''signer'', invocationSigner),
       (''request'', JObj [
          (''referenceId'', JStr EDVS_profileDoc),
          (''allowedAction'', JArr [JStr ''read'']),
          (''controller'', profileAgentId),
          (''parentCapability'', edvParentCapability),
          (''invocationTarget'', target)])]))"

definition delegateAgentRecordZcaps ::
    "env \<Rightarrow> jv \<Rightarrow> jv \<Rightarrow> jv \<Rightarrow> jv \<Rightarrow> jv \<Rightarrow> jv \<Rightarrow> jv \<Rightarrow> jv M" where
  "delegateAgentRecordZcaps env edvId profileAgentId docId invocationTarget
       edvParentCapability keyAgreementKey invocationSigner =
     bnd (documentTarget edvId docId invocationTarget edvParentCapability) (\<lambda>target.
     bnd (getProp keyAgreementKey ''id'') (\<lambda>kakId.
     bnd (promiseAll [
            utils_delegateCapability env (JObj [
              (''signer'', invocationSigner),
              (''request'', JObj [
                 (''referenceId'', JStr ''profile-agent-edv-document''),
                 (''allowedAction'', JArr [JStr ''read'']),
                 (''controller'', profileAgentId),
                 (''parentCapability'', edvParentCapability),
                 (''invocationTarget'', target)])]),
            utils_delegateCapability env (JObj [
              (''signer'', invocationSigner),
              (''request'', JObj [
                 (''referenceId'', JStr EDVS_userKak),
                 (''allowedAction'', JArr [JStr ''deriveSecret'', JStr ''sign'']),
                 (''controller'', profileAgentId),
                 (''invocationTarget'', JObj [
                    (''id'', kakId),
                    (''type'', fld keyAgreementKey ''type''),
                    (''verificationMethod'', kakId)]),
                 (''parentCapability'', kakId)])])]) (\<lambda>zcaps.
     ret (JObj [(''userDocument'', zcaps ! 0), (''userKak'', zcaps ! 1)]))))"

subsection \<open>Initializing access management\<close>

text \<open>\<open>for(const t of types) { if(!type.includes(t)) { type.push(t); } }\<close>; the types are
  strings, which \<open>includes\<close> compares by their contents.\<close>

fun pushTypes :: "jv list \<Rightarrow> jv list \<Rightarrow> jv list" where
  "pushTypes typ [] = typ"
| "pushTypes typ (t # ts) = pushTypes (if t \<in> set typ then typ else typ @ [t]) ts"

text \<open>\<open>let {type: types = []} = content; if(!Array.isArray(types)) { types = [types]; }\<close>\<close>

definition typesOf :: "jv \<Rightarrow> jv list M" where
  "typesOf content =
     bnd (getProp content ''type'') (\<lambda>given.
     let types = dflt given (JArr []) in
     ret (if isArray types then elems types else [types]))"

text \<open>\<open>const {profileManager} = this\<close>: neither the constructor nor a method of the class
  sets a property \<open>profileManager\<close>, so it is \<open>undefined\<close>.\<close>

definition this_profileManager :: jv where
  "this_profileManager = JUndef"

text \<open>\<open>for(const index of indexes) { client.ensureIndex(index); }\<close>\<close>

fun ensureIndexes :: "env \<Rightarrow> jv \<Rightarrow> jv list \<Rightarrow> unit M" where
  "ensureIndexes env client [] = ret ()"
| "ensureIndexes env client (index # indexes) =
     bnd (collab env (EdvEnsureIndex client index)) (\<lambda>_. ensureIndexes env client indexes)"

definition initializeAccessManagement ::
    "env \<Rightarrow> jv \<Rightarrow> jv \<Rightarrow> jv \<Rightarrow> jv \<Rightarrow> jv \<Rightarrow> jv \<Rightarrow> jv \<Rightarrow> jv \<Rightarrow> jv \<Rightarrow> jv \<Rightarrow> jv M" where
  "initializeAccessManagement env profileId profileContent profileAgentContent0 hmac0
       keyAgreementKey0 edvId capability0 revocationCapability indexes0 capabilityInvoker0 =
     (let profileAgentContent = dflt profileAgentContent0 (JObj []);
          indexes = dflt indexes0 (JArr []);
          capabilityInvoker = dflt capabilityInvoker0 (JStr ''local'')
      in
      bnd (nonEmptyString profileId ''profileId'') (\<lambda>_.
      if truthy hmac0 \<noteq> truthy keyAgreementKey0 then
        throw (TypeErrorMsg (''Both \"hmac\" and \"keyAgreementKey\" must be given or neither must '' @
          ''be given.''))
      else if truthy edvId = truthy capability0 then
        throw (TypeErrorMsg ''Either \"edvId\" and \"capability\" must be given, not both.'')
      else
        bnd (if \<not> truthy hmac0 then
               bnd (getProp this_profileManager ''createEdvRecipientKeys'') (\<lambda>_.
               bnd (createEdvRecipientKeys env profileId) (\<lambda>keys.
               bnd (getProp keys ''hmac'') (\<lambda>hmac.
               ret (hmac, fld keys ''keyAgreementKey''))))
             else ret (hmac0, keyAgreementKey0)) (\<lambda>(hmac, keyAgreementKey).
        bnd (getProp hmac ''id'') (\<lambda>hmacId.
        bnd (getProp keyAgreementKey ''id'') (\<lambda>kakId.
        bnd (iter indexes) (\<lambda>moreIndexes.
        let accessManagement0 = JObj [
              (''hmac'', JObj [(''id'', hmacId), (''type'', fld hmac ''type'')]),
              (''keyAgreementKey'', JObj [
                 (''id'', kakId), (''type'', fld keyAgreementKey ''type'')]),
              (''indexes'', JArr ([
                 JObj [(''attribute'', JStr ''content.id''), (''unique'', JBool True)],
                 JObj [(''attribute'', JStr ''content.type'')]] @ moreIndexes)),
              (''zcaps'', JObj [])]
        in
        bnd (getProp profileContent ''zcaps'') (\<lambda>contentZcaps.
        let profileZcaps0 = mkObj (spread contentZcaps);
            profileZcaps =
              (if truthy capability0 then
                 (let withWrite =
                        setProp profileZcaps0 (toStr (fld capability0 ''referenceId'')) capability0
                  in if truthy revocationCapability then
                       setProp withWrite (toStr (fld revocationCapability ''referenceId''))
                         revocationCapability
                     else withWrite)
               else profileZcaps0);
            accessManagement =
              (if truthy capability0 then
                 setProp accessManagement0 ''zcaps''
                   (if truthy revocationCapability then
                      JObj [(''write'', fld capability0 ''referenceId''),
                            (''revoke'', fld revocationCapability ''referenceId'')]
                    else JObj [(''write'', fld capability0 ''referenceId'')])
               else setProp accessManagement0 ''edvId'' edvId);
            capability =
              (if truthy capability0 then capability0
               else JStr (toStr edvId @ ''/zcaps/documents''));
            client = construct env ''EdvClient'' (JObj [
              (''id'', edvId),
              (''keyResolver'', keyResolver),
              (''keyAgreementKey'', keyAgreementKey),
              (''hmac'', hmac)])
        in
        bnd (ensureIndexes env client (elems (fld accessManagement ''indexes''))) (\<lambda>_.
        bnd (getAgentRecord env profileId) (\<lambda>profileAgentRecord.
        bnd (getProp profileAgentRecord ''profileAgent'') (\<lambda>recordAgent.
        bnd (getProp recordAgent ''id'') (\<lambda>profileAgentId.
        bnd (getProp (fld recordAgent ''zcaps'') ''profileCapabilityInvocationKey'')
          (\<lambda>profileCapabilityInvocationKey.
        bnd (getProfileSigner env profileId capabilityInvoker) (\<lambda>signerResult.
        bnd (getProp signerResult ''invocationSigner'') (\<lambda>invocationSigner.
        let recipients = JArr [JObj [(''header'', JObj [
              (''kid'', kakId), (''alg'', JStr JWE_ALG)])]]
        in
        bnd (collab env EdvGenerateId) (\<lambda>profileDocId.
        let profileUserDoc = construct env ''EdvDocument'' (JObj [
              (''id'', profileDocId),
              (''recipients'', recipients),
              (''keyResolver'', keyResolver),
              (''keyAgreementKey'', keyAgreementKey),
              (''hmac'', hmac),
              (''capability'', capability),
              (''invocationSigner'', invocationSigner),
              (''client'', client)])
        in
        bnd (typesOf profileContent) (\<lambda>profileTypes.
        let profile = mkObj (spread profileContent @ [
              (''id'', profileId),
              (''type'', JArr (pushTypes [JStr ''User'', JStr ''Profile''] profileTypes)),
              (''accessManagement'', accessManagement),
              (''zcaps'', profileZcaps)])
        in
        bnd (collab env (EdvDocumentWrite profileUserDoc (JObj [
               (''doc'', JObj [(''id'', profileDocId), (''content'', profile)])]))) (\<lambda>_.
        bnd (delegateProfileUserDocZcap env edvId profileAgentId profileDocId JUndef capability
               invocationSigner) (\<lambda>profileDocZcap.
        bnd (delegateEdvCapabilities env edvId hmac keyAgreementKey
               (JObj [(''edv'', capability), (''edvRevocations'', revocationCapability)])
               invocationSigner profileAgentId (JStr ''user'')) (\<lambda>delegated.
        bnd (getProp delegated ''zcaps'') (\<lambda>userEdvZcaps.
        bnd (collab env EdvGenerateId) (\<lambda>agentDocId.
        let agentDoc = construct env ''EdvDocument'' (JObj [
              (''id'', agentDocId),
              (''recipients'', recipients),
              (''keyResolver'', keyResolver),
              (''keyAgreementKey'', keyAgreementKey),
              (''hmac'', hmac),
              (''capability'', capability),
              (''invocationSigner'', invocationSigner),
              (''client'', client)])
        in
        bnd (typesOf profileAgentContent) (\<lambda>agentTypes.
        bnd (iter userEdvZcaps) (\<lambda>userEdvZcapList.
        bnd (settle (zcapsByReferenceId userEdvZcapList [])) (\<lambda>profileAgentZcaps.
        bnd (getProp profileCapabilityInvocationKey ''referenceId'') (\<lambda>invocationKeyReferenceId.
        bnd (getProp profileDocZcap ''referenceId'') (\<lambda>profileDocReferenceId.
        bnd (reads clock) (\<lambda>time.
        let profileAgent = mkObj ([(''name'', JStr ''root'')] @ spread profileAgentContent @ [
              (''id'', profileAgentId),
              (''type'', JArr (pushTypes [JStr ''User'', JStr ''Agent''] agentTypes)),
              (''zcaps'', mkObj ([
                 (toStr invocationKeyReferenceId, profileCapabilityInvocationKey),
                 (toStr profileDocReferenceId, profileDocZcap)] @ profileAgentZcaps)),
              (''authorizedDate'', JStr (isoDate env time))])
        in
        bnd (collab env (EdvDocumentWrite agentDoc (JObj [
               (''doc'', JObj [(''id'', agentDocId), (''content'', profileAgent)])]))) (\<lambda>_.
        bnd (delegateAgentRecordZcaps env edvId profileAgentId agentDocId JUndef capability
               keyAgreementKey invocationSigner) (\<lambda>agentRecordZcaps.
        bnd (reads accountId) (\<lambda>account.
        bnd (collab env (UpdateAgentCapabilitySet (JObj [
               (''account'', account),
               (''profileAgentId'', profileAgentId),
               (''zcaps'', agentRecordZcaps)]))) (\<lambda>_.
        ret (JObj [(''profile'', profile), (''profileAgent'', profileAgent)]))
        ))))))))))))))))))))))))))))))"

subsection \<open>Access to the stores of a profile\<close>

definition getAccessManager :: "env \<Rightarrow> jv \<Rightarrow> jv \<Rightarrow> jv M" where
  "getAccessManager env profileId capabilityInvoker0 =
     (let capabilityInvoker = dflt capabilityInvoker0 (JStr ''local'') in
      bnd (nonEmptyString profileId ''profileId'') (\<lambda>_.
      bnd (promiseAll [getProfile env profileId JUndef, getAgent env profileId]) (\<lambda>both.
      let profile = both ! 0; profileAgent = both ! 1 in
      bnd (promiseAll (map (\<lambda>referenceId. getCapability env (JStr referenceId) profileAgent JUndef capabilityInvoker)
             [EDVS_userDocs, EDVS_userKak, EDVS_userHmac])) (\<lambda>zcaps.
      let capability = zcaps ! 0; userKak = zcaps ! 1; userHmac = zcaps ! 2 in
      bnd (getProp profileAgent ''id'') (\<lambda>profileAgentId.
      bnd (getInvocationSigner env profileAgentId capabilityInvoker) (\<lambda>invocationSigner.
      if \<not> (truthy capability \<and> truthy userKak \<and> truthy userHmac) then
        throw (ErrorMsg (''Profile agent \"'' @ toStr profileAgentId @
          ''\" is not authorized to manage access for profile \"'' @ toStr profileId @ ''\".''))
      else
        bnd (getProp profile ''accessManagement'') (\<lambda>accessManagement.
        bnd (getProp accessManagement ''edvId'') (\<lambda>edvId.
        bnd (getProp (fld userKak ''invocationTarget'') ''id'') (\<lambda>kakTargetId.
        bnd (getProp (fld userHmac ''invocationTarget'') ''id'') (\<lambda>hmacTargetId.
        let edvClient = construct env ''EdvClient'' (JObj [
              (''id'', edvId),
              (''keyResolver'', keyResolver),
              (''keyAgreementKey'', construct env ''KeyAgreementKey'' (JObj [
                 (''id'', kakTargetId),
                 (''type'', fld (fld userKak ''invocationTarget'') ''type''),
                 (''capability'', userKak),
                 (''invocationSigner'', invocationSigner)])),
              (''hmac'', construct env ''Hmac'' (JObj [
                 (''id'', hmacTargetId),
                 (''type'', fld (fld userHmac ''invocationTarget'') ''type''),
                 (''capability'', userHmac),
                 (''invocationSigner'', invocationSigner)]))])
        in
        bnd (iter (fld accessManagement ''indexes'')) (\<lambda>indexes.
        bnd (ensureIndexes env edvClient indexes) (\<lambda>_.
        let users = construct env ''Collection'' (JObj [
              (''type'', JStr ''User''),
              (''edvClient'', edvClient),
              (''capability'', capability),
              (''invocationSigner'', invocationSigner)])
        in
        ret (construct env ''AccessManager'' (JObj [
          (''profile'', profile), (''users'', users)]))))))))))))))"

definition createProfileEdv :: "env \<Rightarrow> jv \<Rightarrow> jv \<Rightarrow> jv M" where
  "createProfileEdv env profileId referenceId =
     bnd (nonEmptyString profileId ''profileId'') (\<lambda>_.
     bnd (promiseAll [getProfileSigner env profileId JUndef,
            createEdvRecipientKeys env profileId]) (\<lambda>both.
     bnd (getProp (both ! 0) ''invocationSigner'') (\<lambda>invocationSigner.
     bnd (getProp (both ! 1) ''hmac'') (\<lambda>hmac.
     let keyAgreementKey = fld (both ! 1) ''keyAgreementKey'' in
     bnd (getProp keyAgreementKey ''id'') (\<lambda>kakId.
     bnd (getProp hmac ''id'') (\<lambda>hmacId.
     bnd (reads edvBaseUrl) (\<lambda>url.
     bnd (collab env (EdvCreateEdv (JObj [
            (''config'', JObj [
               (''sequence'', JNum 0),
               (''controller'', profileId),
               (''referenceId'', referenceId),
               (''keyAgreementKey'', JObj [
                  (''id'', kakId), (''type'', fld keyAgreementKey ''type'')]),
               (''hmac'', JObj [(''id'', hmacId), (''type'', fld hmac ''type'')])]),
            (''invocationSigner'', invocationSigner),
            (''url'', url)]))) (\<lambda>config.
     bnd (getProp config ''id'') (\<lambda>configId.
     ret (JObj [(''edvClient'', construct env ''EdvClient'' (JObj [
       (''id'', configId),
       (''keyResolver'', keyResolver),
       (''keyAgreementKey'', keyAgreementKey),
       (''hmac'', hmac)]))]))))))))))"

definition delegateCapability :: "env \<Rightarrow> jv \<Rightarrow> jv \<Rightarrow> jv M" where
  "delegateCapability env profileId request =
     bnd (nonEmptyString profileId ''profileId'') (\<lambda>_.
     bnd (getProfileSigner env profileId JUndef) (\<lambda>signerResult.
     bnd (getProp signerResult ''invocationSigner'') (\<lambda>signer.
     bnd (getProfileKeystoreAgent env profileId) (\<lambda>keystoreAgent'.
     bnd (getProp keystoreAgent' ''keystore'') (\<lambda>keystore.
     bnd (getProp keystore ''id'') (\<lambda>keystoreId.
     utils_delegateCapability env (JObj [
       (''signer'', signer), (''keystoreId'', keystoreId), (''request'', request)])))))))"

definition getProfileEdvAccess :: "env \<Rightarrow> jv \<Rightarrow> jv \<Rightarrow> jv \<Rightarrow> jv M" where
  "getProfileEdvAccess env profileId referenceIdPrefix capabilityInvoker0 =
     (let capabilityInvoker = dflt capabilityInvoker0 (JStr ''local'') in
      bnd (nonEmptyString profileId ''profileId'') (\<lambda>_.
      let refs_documents = toStr referenceIdPrefix @ ''-edv-documents'';
          refs_hmac = toStr referenceIdPrefix @ ''-edv-hmac'';
          refs_kak = toStr referenceIdPrefix @ ''-edv-kak''
      in
      bnd (getAgent env profileId) (\<lambda>profileAgent.
      bnd (promiseAll (map (\<lambda>referenceId. getCapability env (JStr referenceId) profileAgent JUndef capabilityInvoker)
             [refs_documents, refs_kak, refs_hmac])) (\<lambda>zcaps.
      let documentsZcap = zcaps ! 0; kakZcap = zcaps ! 1; hmacZcap = zcaps ! 2 in
      bnd (getProp profileAgent ''id'') (\<lambda>profileAgentId.
      bnd (getInvocationSigner env profileAgentId capabilityInvoker) (\<lambda>invocationSigner.
      if \<not> (truthy documentsZcap \<and> truthy hmacZcap \<and> truthy kakZcap) then
        throw (ErrorMsg (''Profile agent \"'' @ toStr profileAgentId @
          ''\" is not authorized to access profile \"'' @ toStr profileId @ ''\".''))
      else
        bnd (getProp (fld kakZcap ''invocationTarget'') ''id'') (\<lambda>kakTargetId.
        bnd (getProp (fld hmacZcap ''invocationTarget'') ''id'') (\<lambda>hmacTargetId.
        ret (JObj [
          (''edvClient'', construct env ''EdvClient'' (JObj [
             (''keyResolver'', keyResolver),
             (''keyAgreementKey'', construct env ''KeyAgreementKey'' (JObj [
                (''id'', kakTargetId),
                (''type'', fld (fld kakZcap ''invocationTarget'') ''type''),
                (''capability'', kakZcap),
                (''invocationSigner'', invocationSigner)])),
             (''hmac'', construct env ''Hmac'' (JObj [
                (''id'', hmacTargetId),
                (''type'', fld (fld hmacZcap ''invocationTarget'') ''type''),
                (''capability'', hmacZcap),
                (''invocationSigner'', invocationSigner)]))])),
          (''capability'', documentsZcap),
          (''invocationSigner'', invocationSigner)])))))))))"

definition getCollection :: "env \<Rightarrow> jv \<Rightarrow> jv \<Rightarrow> jv \<Rightarrow> jv M" where
  "getCollection env profileId referenceIdPrefix collectionType =
     bnd (nonEmptyString profileId ''profileId'') (\<lambda>_.
     bnd (getProfileEdvAccess env profileId referenceIdPrefix JUndef) (\<lambda>access.
     bnd (getProp access ''edvClient'') (\<lambda>edvClient.
     bnd (ensureIndexes env edvClient [
            JObj [(''attribute'', JStr ''content.id''), (''unique'', JBool True)],
            JObj [(''attribute'', JStr ''content.type'')]]) (\<lambda>_.
     ret (construct env ''Collection'' (JObj [
       (''type'', collectionType),
       (''edvClient'', edvClient),
       (''capability'', fld access ''capability''),
       (''invocationSigner'', fld access ''invocationSigner'')]))))))"

subsection \<open>Following the session\<close>

definition resetCache :: "unit M" where
  "resetCache = modify (\<lambda>s. s\<lparr>pm_cache := Map.empty\<rparr>)"

definition sessionChanged :: "env \<Rightarrow> jv \<Rightarrow> jv \<Rightarrow> unit M" where
  "sessionChanged env authentication newData =
     bnd (getProp newData ''account'') (\<lambda>given.
     let account = dflt given (JObj []) in
     bnd (getProp account ''id'') (\<lambda>givenId.
     let newAccountId = dflt givenId JNull in
     bnd (reads accountId) (\<lambda>oldAccountId.
     bnd (if truthy oldAccountId \<and> oldAccountId \<noteq> newAccountId then
            bnd (collab env (CapabilityAgentClearCache (JObj [(''handle'', oldAccountId)])))
              (\<lambda>_.
            bnd (collab env EdvClientCacheClear) (\<lambda>_. ret ()))
          else ret ()) (\<lambda>_.
     bnd (modify (\<lambda>s. s\<lparr>accountId := newAccountId, capabilityAgent := JNull,
            keystoreAgent := JNull\<rparr>)) (\<lambda>_.
     bnd resetCache (\<lambda>_.
     if \<not> (truthy authentication \<or> truthy given) then ret ()
     else
       bnd (collab env (CapabilityAgentFromCache (JObj [(''handle'', newAccountId)])))
         (\<lambda>cachedAgent.
       bnd (modify (\<lambda>s. s\<lparr>capabilityAgent := cachedAgent\<rparr>)) (\<lambda>_.
       if cachedAgent = JNull then
         bnd (collab env (GetRandomValues 32)) (\<lambda>secret.
         bnd (collab env (CapabilityAgentFromSecret (JObj [
                (''secret'', secret), (''handle'', newAccountId)]))) (\<lambda>freshAgent.
         modify (\<lambda>s. s\<lparr>capabilityAgent := freshAgent\<rparr>)))
       else ret ()))))))))"

section \<open>Conditions of the properties\<close>

text \<open>The logical id \<open>zcapId\<close> resolves to the key \<open>referenceId\<close> of the agent's capability
  map: itself, or for the profile's invocation key the first key that starts with the
  profile's id and ends with \<open>-key-capabilityInvocation\<close>.\<close>

definition resolvesTo :: "jv \<Rightarrow> jv \<Rightarrow> jv \<Rightarrow> jv \<Rightarrow> bool" where
  "resolvesTo zcapId profileId profileAgent referenceId =
     (if zcapId = JStr PROFILE_INVOCATION_ZCAP_REFERENCE_ID then
        (case profileId of
           JStr p \<Rightarrow>
             p \<noteq> [] \<and>
             (case find (\<lambda>r. startsWith r p \<and> endsWith r ''-key-capabilityInvocation'')
                     (map fst (spread (fld profileAgent ''zcaps''))) of
                None \<Rightarrow> False
              | Some k \<Rightarrow> referenceId = JStr k)
         | _ \<Rightarrow> False)
      else referenceId = zcapId)"

text \<open>\<open>returns m Q\<close>: whatever value the operation \<open>m\<close> returns satisfies \<open>Q\<close>.\<close>

definition returns :: "'a M \<Rightarrow> ('a \<Rightarrow> bool) \<Rightarrow> bool" where
  "returns m Q = (\<forall>s r s'. m s = (Inr r, s') \<longrightarrow> Q r)"

text \<open>The types a caller supplies in a content object: the elements of \<open>type\<close> when it is
  an array, the value itself otherwise, none when it is \<open>undefined\<close>.\<close>

definition callerTypes :: "jv \<Rightarrow> jv list" where
  "callerTypes content =
     (case fld content ''type'' of
        JUndef \<Rightarrow> []
      | JArr ts \<Rightarrow> ts
      | t \<Rightarrow> [t])"

text \<open>The spec's words for the rest of a type array: each of the types \<open>ts\<close> that is not
  already present (in \<open>seen\<close> or earlier in \<open>ts\<close>), in first-seen order.\<close>

fun typesNotPresent :: "jv list \<Rightarrow> jv list \<Rightarrow> jv list" where
  "typesNotPresent seen [] = []"
| "typesNotPresent seen (t # ts) =
     (if t \<in> set seen then typesNotPresent seen ts
      else t # typesNotPresent (t # seen) ts)"

text \<open>What a result of \<open>initializeAccessManagement\<close> is like, for a call with an
  \<open>edvId\<close> and both keys.\<close>

definition bootstrapShape :: "jv \<Rightarrow> jv \<Rightarrow> jv \<Rightarrow> bool" where
  "bootstrapShape edvId profileContent res =
     (fld (fld (fld res ''profile'') ''accessManagement'') ''edvId'' = edvId
      \<and> fld (fld res ''profile'') ''type'' =
          JArr ([JStr ''User'', JStr ''Profile'']
                @ typesNotPresent [JStr ''User'', JStr ''Profile''] (callerTypes profileContent))
      \<and> (\<exists>m. fld (fld res ''profileAgent'') ''zcaps'' = JObj m \<and> m \<noteq> []))"

text \<open>Callers one after the other, each run to its end, with the outcome of each (what
  \<open>Promise.allSettled\<close> collects).\<close>

fun allSettled :: "'a M list \<Rightarrow> pm \<Rightarrow> (error + 'a) list \<times> pm" where
  "allSettled [] s = ([], s)"
| "allSettled (m # ms) s =
     (case m s of (r, s1) \<Rightarrow> (case allSettled ms s1 of (rs, s2) \<Rightarrow> (r # rs, s2)))"

section \<open>A sample of collaborators and a bound manager\<close>

text \<open>
  Concrete collaborators for the examples: a backend that has one profile agent
  \<open>did:key:agent1\<close> for the profile \<open>did:v1:test:abc\<close>, whose record holds the capability to
  use the profile's capability-invocation key and nothing else (access management is not
  initialized); a delegation collaborator that always gives a proof; a store that accepts
  every write and names each new document after the number of operations made so far.
  Every operation takes one millisecond. An instance of an external class is the object of
  its options, the signer of a capability agent has the agent's id.
\<close>

definition sampleInvocationKeyZcap :: jv where
  "sampleInvocationKeyZcap = JObj [
     (''id'', JStr ''urn:zcap:key1''),
     (''referenceId'', JStr ''did:v1:test:abc-key-capabilityInvocation''),
     (''controller'', JStr ''did:key:agent1''),
     (''invocationTarget'', JObj [
        (''id'', JStr ''https://kms/keystores/ks1/keys/key1''),
        (''type'', JStr ''Ed25519VerificationKey2018'')]),
     (''allowedAction'', JStr ''sign'')]"

definition sampleAgentRecord :: jv where
  "sampleAgentRecord = JObj [
     (''profileAgent'', JObj [
        (''id'', JStr ''did:key:agent1''),
        (''account'', JStr ''urn:uuid:account1''),
        (''profile'', JStr ''did:v1:test:abc''),
        (''sequence'', JNum 0),
        (''zcaps'', JObj [(''profileCapabilityInvocationKey'', sampleInvocationKeyZcap)])])]"

fun sampleRespond :: "call list \<Rightarrow> call \<Rightarrow> error + jv" where
  "sampleRespond h (GetAgentByProfile q) = Inr sampleAgentRecord"
| "sampleRespond h (DelegateAgentCapabilities q) =
     Inr (JObj [(''zcap'', JObj [(''id'', JStr ''urn:zcap:agent1'')])])"
| "sampleRespond h (DelegateCapability opts) =
     Inr (JObj [(''type'', JStr ''Ed25519Signature2018'')])"
| "sampleRespond h EdvGenerateId = Inr (JStr (''z'' @ showNat (length h)))"
| "sampleRespond h (CapabilityAgentFromCache q) = Inr JNull"
| "sampleRespond h (CapabilityAgentFromSecret q) =
     Inr (JObj [(''id'', JStr ''did:key:account1''), (''handle'', fld q ''handle'')])"
| "sampleRespond h c = Inr JUndef"

definition sampleEnv :: env where
  "sampleEnv = \<lparr>
     respond = sampleRespond,
     latency = (\<lambda>h c. 1),
     construct = (\<lambda>c opts. opts),
     getSigner = (\<lambda>agent. JObj [(''id'', fld agent ''id'')]),
     deriveKeystoreId = (\<lambda>v. Inr v),
     isoDate = (\<lambda>t. ''2020-01-01T00:00:00.000Z'')\<rparr>"

text \<open>A manager bound to the account \<open>urn:uuid:account1\<close>, with empty caches.\<close>

definition sampleManager :: pm where
  "sampleManager = \<lparr>
     accountId = JStr ''urn:uuid:account1'',
     capabilityAgent = JObj [(''id'', JStr ''did:key:account1'')],
     keystoreAgent = JNull,
     kmsModule = JStr ''ssm-v1'',
     edvBaseUrl = JStr ''https://edvs'',
     kmsBaseUrl = JStr ''https://kms'',
     pm_cache = Map.empty,
     pm_requests = Map.empty,
     calls = [],
     clock = 0\<rparr>"

text \<open>The content that \<open>getAgent\<close> gives for the sample agent.\<close>

definition sampleAgent :: jv where
  "sampleAgent = JObj [
     (''id'', JStr ''did:key:agent1''),
     (''zcaps'', JObj [
        (''did:v1:test:abc-key-capabilityInvocation'', sampleInvocationKeyZcap)])]"

definition sampleHmac :: jv where
  "sampleHmac = JObj [
     (''id'', JStr ''https://kms/keystores/ks1/keys/hmac1''), (''type'', JStr ''Sha256HmacKey2019'')]"

definition sampleKak :: jv where
  "sampleKak = JObj [
     (''id'', JStr ''https://kms/keystores/ks1/keys/kak1''),
     (''type'', JStr ''X25519KeyAgreementKey2020'')]"

section \<open>Properties\<close>

subsection \<open>Laws of the state transformers\<close>

lemma bnd_ret [simp]: "bnd (ret x) f = f x"
  by (simp add: bnd_def ret_def)

lemma bnd_throw [simp]: "bnd (throw e) f = throw e"
  by (simp add: bnd_def throw_def)

lemma throw_run: "throw e s = (Inl e, s)"
  by (simp add: throw_def)

lemma ret_run: "ret x s = (Inr x, s)"
  by (simp add: ret_def)

lemma nonEmptyString_missing:
  "v = JUndef \<or> v = JStr [] \<Longrightarrow> nonEmptyString v name = throw (AssertError name)"
  by (auto simp: nonEmptyString_def)

lemma nonEmptyString_ok: "s \<noteq> [] \<Longrightarrow> nonEmptyString (JStr s) name = ret ()"
  by (simp add: nonEmptyString_def)

subsection \<open>Validation of identifiers\<close>

lemma getAgent_rejects:
  "v = JUndef \<or> v = JStr [] \<Longrightarrow> getAgent env v s = (Inl (AssertError ''profileId''), s)"
  by (simp add: getAgent_def nonEmptyString_missing, simp add: throw_run)

lemma getProfileSigner_rejects:
  "v = JUndef \<or> v = JStr [] \<Longrightarrow>
   getProfileSigner env v invoker s = (Inl (AssertError ''profileId''), s)"
  by (simp add: getProfileSigner_def nonEmptyString_missing Let_def, simp add: throw_run)

lemma getProfile_rejects:
  "v = JUndef \<or> v = JStr [] \<Longrightarrow> getProfile env v invoker s = (Inl (AssertError ''id''), s)"
  by (simp add: getProfile_def nonEmptyString_missing Let_def, simp add: throw_run)

lemma getProfileKeystoreAgent_rejects:
  "v = JUndef \<or> v = JStr [] \<Longrightarrow>
   getProfileKeystoreAgent env v s = (Inl (AssertError ''profileId''), s)"
  by (simp add: getProfileKeystoreAgent_def nonEmptyString_missing, simp add: throw_run)

lemma createProfileEdv_rejects:
  "v = JUndef \<or> v = JStr [] \<Longrightarrow>
   createProfileEdv env v referenceId s = (Inl (AssertError ''profileId''), s)"
  by (simp add: createProfileEdv_def nonEmptyString_missing, simp add: throw_run)

lemma getAccessManager_rejects:
  "v = JUndef \<or> v = JStr [] \<Longrightarrow>
   getAccessManager env v invoker s = (Inl (AssertError ''profileId''), s)"
  by (simp add: getAccessManager_def nonEmptyString_missing Let_def, simp add: throw_run)

lemma getCollection_rejects:
  "v = JUndef \<or> v = JStr [] \<Longrightarrow>
   getCollection env v prefix t s = (Inl (AssertError ''profileId''), s)"
  by (simp add: getCollection_def nonEmptyString_missing, simp add: throw_run)

lemma getProfileEdvAccess_rejects:
  "v = JUndef \<or> v = JStr [] \<Longrightarrow>
   getProfileEdvAccess env v prefix invoker s = (Inl (AssertError ''profileId''), s)"
  by (simp add: getProfileEdvAccess_def nonEmptyString_missing Let_def, simp add: throw_run)

lemma delegateCapability_rejects:
  "v = JUndef \<or> v = JStr [] \<Longrightarrow>
   delegateCapability env v request s = (Inl (AssertError ''profileId''), s)"
  by (simp add: delegateCapability_def nonEmptyString_missing, simp add: throw_run)

lemma initializeAccessManagement_rejects:
  "v = JUndef \<or> v = JStr [] \<Longrightarrow>
   initializeAccessManagement env v content agentContent hmac kak edvId capability revocation
     indexes invoker s = (Inl (AssertError ''profileId''), s)"
  by (simp add: initializeAccessManagement_def nonEmptyString_missing Let_def,
      simp add: throw_run)

text \<open>
  Claim C3. Each public method that requires an identifier (\<open>getAgent\<close>, \<open>getProfileSigner\<close>,
  \<open>getProfile\<close>, \<open>getProfileKeystoreAgent\<close>, \<open>createProfileEdv\<close>, \<open>getAccessManager\<close>,
  \<open>getCollection\<close>, \<open>getProfileEdvAccess\<close>, \<open>delegateCapability\<close>,
  \<open>initializeAccessManagement\<close>), called with the identifier \<open>undefined\<close> or \<open>''\<close>, rejects with
  the error that names the field (\<open>id\<close> for \<open>getProfile\<close>, \<open>profileId\<close> for the others), whatever
  its other arguments and the collaborators are, and leaves the manager's state as it was:
  nothing is added to the log of collaborator operations and no cache is touched.
\<close>

theorem identifier_validation_rejects_before_any_collaborator_call:
  "getAgent env JUndef s = (Inl (AssertError ''profileId''), s)
   \<and> getAgent env (JStr []) s = (Inl (AssertError ''profileId''), s)
   \<and> getProfileSigner env JUndef invoker s = (Inl (AssertError ''profileId''), s)
   \<and> getProfileSigner env (JStr []) invoker s = (Inl (AssertError ''profileId''), s)
   \<and> getProfile env JUndef invoker s = (Inl (AssertError ''id''), s)
   \<and> getProfile env (JStr []) invoker s = (Inl (AssertError ''id''), s)
   \<and> getProfileKeystoreAgent env JUndef s = (Inl (AssertError ''profileId''), s)
   \<and> getProfileKeystoreAgent env (JStr []) s = (Inl (AssertError ''profileId''), s)
   \<and> createProfileEdv env JUndef referenceId s = (Inl (AssertError ''profileId''), s)
   \<and> createProfileEdv env (JStr []) referenceId s = (Inl (AssertError ''profileId''), s)
   \<and> getAccessManager env JUndef invoker s = (Inl (AssertError ''profileId''), s)
   \<and> getAccessManager env (JStr []) invoker s = (Inl (AssertError ''profileId''), s)
   \<and> getCollection env JUndef prefix t s = (Inl (AssertError ''profileId''), s)
   \<and> getCollection env (JStr []) prefix t s = (Inl (AssertError ''profileId''), s)
   \<and> getProfileEdvAccess env JUndef prefix invoker s = (Inl (AssertError ''profileId''), s)
   \<and> getProfileEdvAccess env (JStr []) prefix invoker s = (Inl (AssertError ''profileId''), s)
   \<and> delegateCapability env JUndef request s = (Inl (AssertError ''profileId''), s)
   \<and> delegateCapability env (JStr []) request s = (Inl (AssertError ''profileId''), s)
   \<and> initializeAccessManagement env JUndef content agentContent hmac kak edvId capability
         revocation indexes invoker s = (Inl (AssertError ''profileId''), s)
   \<and> initializeAccessManagement env (JStr []) content agentContent hmac kak edvId capability
         revocation indexes invoker s = (Inl (AssertError ''profileId''), s)"
  by (simp only: getAgent_rejects getProfileSigner_rejects getProfile_rejects
      getProfileKeystoreAgent_rejects createProfileEdv_rejects getAccessManager_rejects
      getCollection_rejects getProfileEdvAccess_rejects delegateCapability_rejects
      initializeAccessManagement_rejects simp_thms)

subsection \<open>Generating the recipient keys\<close>

text \<open>
  Claim C4 (the code departs from it). \<open>initializeAccessManagement\<close> called for the profile
  \<open>did:v1:test:abc\<close> with an \<open>edvId\<close> and neither \<open>hmac\<close> nor \<open>keyAgreementKey\<close> does not
  generate the keys: it reads \<open>createEdvRecipientKeys\<close> of \<open>this.profileManager\<close>, which is
  \<open>undefined\<close>, and rejects with the engine's \<open>TypeError\<close>; no collaborator is called and the
  state is as before.
\<close>

theorem initializeAccessManagement_without_keys_throws:
  "initializeAccessManagement env (JStr ''did:v1:test:abc'') (JObj [(''foo'', JBool True)])
     JUndef JUndef JUndef (JStr ''https://edvs/edv1'') JUndef JUndef JUndef JUndef s =
   (Inl (NativeTypeError ''createEdvRecipientKeys''), s)"
  by (simp add: initializeAccessManagement_def nonEmptyString_def Let_def dflt_def
      getProp_def this_profileManager_def, simp add: throw_run)

subsection \<open>Delegating the capabilities of a store\<close>

text \<open>
  Claim C2 (the code departs from it). \<open>delegateEdvCapabilities\<close> with no \<open>hmac\<close> and a
  \<open>parentCapabilities\<close> without \<open>hmac\<close> rejects before any delegation, but with the engine's
  \<open>TypeError\<close> for reading \<open>invocationTarget\<close> of \<open>undefined\<close>, not with an error that names
  the field \<open>hmac\<close>; the same holds for a missing \<open>edvId\<close> and a missing \<open>keyAgreementKey\<close>.
\<close>

theorem delegateEdvCapabilities_missing_source_native_error:
  "delegateEdvCapabilities env (JStr ''https://edvs/edv1'') JUndef
     (JObj [(''id'', JStr ''https://kms/keys/kak1''), (''type'', JStr ''X25519KeyAgreementKey2020'')])
     (JObj []) signer (JStr ''did:key:agent1'') (JStr ''example'') s =
   (Inl (NativeTypeError ''invocationTarget''), s)
   \<and> delegateEdvCapabilities env JUndef
     (JObj [(''id'', JStr ''https://kms/keys/hmac1''), (''type'', JStr ''Sha256HmacKey2019'')])
     (JObj [(''id'', JStr ''https://kms/keys/kak1''), (''type'', JStr ''X25519KeyAgreementKey2020'')])
     (JObj []) signer (JStr ''did:key:agent1'') (JStr ''example'') s =
   (Inl (NativeTypeError ''invocationTarget''), s)
   \<and> delegateEdvCapabilities env (JStr ''https://edvs/edv1'')
     (JObj [(''id'', JStr ''https://kms/keys/hmac1''), (''type'', JStr ''Sha256HmacKey2019'')])
     JUndef
     (JObj []) signer (JStr ''did:key:agent1'') (JStr ''example'') s =
   (Inl (NativeTypeError ''invocationTarget''), s)"
  by (simp add: delegateEdvCapabilities_def getProp_def, simp add: throw_run)

subsection \<open>Running the delegations\<close>

lemma bnd_Inr:
  "bnd m f s = (Inr y, s') \<Longrightarrow> \<exists>x s1. m s = (Inr x, s1) \<and> f x s1 = (Inr y, s')"
  by (auto simp: bnd_def split: prod.splits sum.splits)

lemma utils_delegateCapability_run:
  "utils_delegateCapability env opts s =
     (map_sum id (\<lambda>p. mkObj (spread (fld opts ''request'') @ [(''proof'', p)]))
        (respond env (calls s) (DelegateCapability opts)),
      s\<lparr>calls := calls s @ [DelegateCapability opts],
        clock := clock s + latency env (calls s) (DelegateCapability opts)\<rparr>)"
  by (cases "respond env (calls s) (DelegateCapability opts)")
     (simp_all add: utils_delegateCapability_def bnd_def collab_def ret_def)

lemma utils_delegateCapability_Inr:
  assumes "utils_delegateCapability env opts s = (Inr z, s')"
  shows "\<exists>p. z = mkObj (spread (fld opts ''request'') @ [(''proof'', p)])"
  using assms
  by (cases "respond env (calls s) (DelegateCapability opts)")
     (auto simp: utils_delegateCapability_run)

lemma utils_delegateCapability_total:
  assumes "\<forall>h c. \<exists>p. respond env h (DelegateCapability c) = Inr p"
  shows "\<exists>z s'. utils_delegateCapability env opts s = (Inr z, s')"
proof -
  obtain p where "respond env (calls s) (DelegateCapability opts) = Inr p"
    using assms by blast
  then show ?thesis by (simp add: utils_delegateCapability_run)
qed

lemma promiseAll3_Inr:
  assumes "promiseAll [m1, m2, m3] s = (Inr zs, s')"
  shows "\<exists>z1 z2 z3 s1 s2. m1 s = (Inr z1, s1) \<and> m2 s1 = (Inr z2, s2) \<and> m3 s2 = (Inr z3, s')
           \<and> zs = [z1, z2, z3]"
  using assms
  by (auto simp: ret_def split: prod.splits sum.splits)

lemma delegate3_Inr:
  assumes "bnd (promiseAll [
            utils_delegateCapability env (JObj [(''signer'', sg), (''request'', r1)]),
            utils_delegateCapability env (JObj [(''signer'', sg), (''request'', r2)]),
            utils_delegateCapability env (JObj [(''signer'', sg), (''request'', r3)])])
       (\<lambda>zcaps. ret (JObj [(''zcaps'', JArr zcaps)])) s = (Inr res, s')"
  shows "\<exists>p1 p2 p3. res = JObj [(''zcaps'', JArr [
            mkObj (spread r1 @ [(''proof'', p1)]),
            mkObj (spread r2 @ [(''proof'', p2)]),
            mkObj (spread r3 @ [(''proof'', p3)])])]"
proof -
  from bnd_Inr [OF assms] obtain zs s1 where
    all: "promiseAll [
            utils_delegateCapability env (JObj [(''signer'', sg), (''request'', r1)]),
            utils_delegateCapability env (JObj [(''signer'', sg), (''request'', r2)]),
            utils_delegateCapability env (JObj [(''signer'', sg), (''request'', r3)])] s
          = (Inr zs, s1)"
    and res: "ret (JObj [(''zcaps'', JArr zs)]) s1 = (Inr res, s')"
    by blast
  from promiseAll3_Inr [OF all] obtain z1 z2 z3 t1 t2 where
    z1: "utils_delegateCapability env (JObj [(''signer'', sg), (''request'', r1)]) s = (Inr z1, t1)"
    and z2: "utils_delegateCapability env (JObj [(''signer'', sg), (''request'', r2)]) t1 = (Inr z2, t2)"
    and z3: "utils_delegateCapability env (JObj [(''signer'', sg), (''request'', r3)]) t2 = (Inr z3, s1)"
    and zs: "zs = [z1, z2, z3]"
    by blast
  from utils_delegateCapability_Inr [OF z1] obtain p1 where
    "z1 = mkObj (spread r1 @ [(''proof'', p1)])" by auto
  moreover from utils_delegateCapability_Inr [OF z2] obtain p2 where
    "z2 = mkObj (spread r2 @ [(''proof'', p2)])" by auto
  moreover from utils_delegateCapability_Inr [OF z3] obtain p3 where
    "z3 = mkObj (spread r3 @ [(''proof'', p3)])" by auto
  ultimately show ?thesis using res zs by (auto simp: ret_def)
qed

lemma delegate3_total:
  assumes ok: "\<forall>h c. \<exists>p. respond env h (DelegateCapability c) = Inr p"
  shows "\<exists>res s'. bnd (promiseAll [
            utils_delegateCapability env o1,
            utils_delegateCapability env o2,
            utils_delegateCapability env o3])
       (\<lambda>zcaps. ret (JObj [(''zcaps'', JArr zcaps)])) s = (Inr res, s')"
proof -
  from utils_delegateCapability_total [OF ok] obtain z1 t1 where
    z1: "utils_delegateCapability env o1 s = (Inr z1, t1)" by blast
  from utils_delegateCapability_total [OF ok] obtain z2 t2 where
    z2: "utils_delegateCapability env o2 t1 = (Inr z2, t2)" by blast
  from utils_delegateCapability_total [OF ok] obtain z3 t3 where
    z3: "utils_delegateCapability env o3 t2 = (Inr z3, t3)" by blast
  have "promiseAll [utils_delegateCapability env o1, utils_delegateCapability env o2,
          utils_delegateCapability env o3] s = (Inr [z1, z2, z3], t3)"
    using z1 z2 z3 by (simp add: ret_def)
  then show ?thesis by (simp add: bnd_def ret_def)
qed

text \<open>With the three fresh sources, the three requests are those of the first branches.\<close>

lemma delegateEdvCapabilities_fresh:
  assumes "truthy edvId" "truthy hmac" "truthy keyAgreementKey"
  shows "delegateEdvCapabilities env edvId hmac keyAgreementKey parentCapabilities signer
           profileAgentId referenceIdPrefix =
     bnd (promiseAll [
            utils_delegateCapability env (JObj [
              (''signer'', signer), (''request'', JObj [
              (''referenceId'', JStr (toStr referenceIdPrefix @ ''-edv-documents'')),
              (''allowedAction'', JArr [JStr ''read'', JStr ''write'']),
              (''controller'', profileAgentId),
              (''invocationTarget'', JObj [
                 (''id'', JStr (toStr edvId @ ''/documents'')),
                 (''type'', JStr ''urn:edv:documents'')]),
              (''parentCapability'', JStr (toStr edvId @ ''/zcaps/documents''))])]),
            utils_delegateCapability env (JObj [
              (''signer'', signer), (''request'', JObj [
              (''referenceId'', JStr (toStr referenceIdPrefix @ ''-edv-hmac'')),
              (''allowedAction'', JStr ''sign''),
              (''controller'', profileAgentId),
              (''invocationTarget'', JObj [
                 (''id'', fld hmac ''id''),
                 (''type'', fld hmac ''type''),
                 (''verificationMethod'', fld hmac ''id'')]),
              (''parentCapability'', fld hmac ''id'')])]),
            utils_delegateCapability env (JObj [
              (''signer'', signer), (''request'', JObj [
              (''referenceId'', JStr (toStr referenceIdPrefix @ ''-edv-kak'')),
              (''allowedAction'', JArr [JStr ''deriveSecret'', JStr ''sign'']),
              (''controller'', profileAgentId),
              (''invocationTarget'', JObj [
                 (''id'', fld keyAgreementKey ''id''),
                 (''type'', fld keyAgreementKey ''type''),
                 (''verificationMethod'', fld keyAgreementKey ''id'')]),
              (''parentCapability'', fld keyAgreementKey ''id'')])])])
       (\<lambda>zcaps. ret (JObj [(''zcaps'', JArr zcaps)]))"
  using assms unfolding delegateEdvCapabilities_def by simp

text \<open>
  Claim C1. When \<open>edvId\<close>, \<open>hmac\<close> and \<open>keyAgreementKey\<close> are all given, whatever
  \<open>delegateEdvCapabilities\<close> returns is \<open>{zcaps}\<close> with exactly three capabilities, in this
  order: for the documents, with \<open>referenceId\<close> \<open>{prefix}-edv-documents\<close>, \<open>allowedAction\<close>
  \<open>['read', 'write']\<close>, target \<open>{edvId}/documents\<close> of type \<open>urn:edv:documents\<close> and parent
  \<open>{edvId}/zcaps/documents\<close>; for the hmac key, with \<open>{prefix}-edv-hmac\<close>, \<open>'sign'\<close>, the key's
  id and type as target and its id as parent; for the key-agreement key, with
  \<open>{prefix}-edv-kak\<close>, \<open>['deriveSecret', 'sign']\<close>, the key's id and type as target and its id as
  parent; the controller of each is the given \<open>profileAgentId\<close>. And the call does return when
  the delegation collaborator gives a proof for every request.
\<close>

theorem delegateEdvCapabilities_fresh_keys_three_capabilities:
  assumes "truthy edvId" "truthy hmac" "truthy keyAgreementKey"
  shows
   "(\<forall>res s'. delegateEdvCapabilities env edvId hmac keyAgreementKey parentCapabilities signer
        profileAgentId referenceIdPrefix s = (Inr res, s') \<longrightarrow>
      (\<exists>documents hmacZcap kak.
         res = JObj [(''zcaps'', JArr [documents, hmacZcap, kak])]
         \<and> fld documents ''referenceId'' = JStr (toStr referenceIdPrefix @ ''-edv-documents'')
         \<and> fld documents ''allowedAction'' = JArr [JStr ''read'', JStr ''write'']
         \<and> fld documents ''controller'' = profileAgentId
         \<and> fld documents ''invocationTarget'' = JObj [
              (''id'', JStr (toStr edvId @ ''/documents'')), (''type'', JStr ''urn:edv:documents'')]
         \<and> fld documents ''parentCapability'' = JStr (toStr edvId @ ''/zcaps/documents'')
         \<and> fld hmacZcap ''referenceId'' = JStr (toStr referenceIdPrefix @ ''-edv-hmac'')
         \<and> fld hmacZcap ''allowedAction'' = JStr ''sign''
         \<and> fld hmacZcap ''controller'' = profileAgentId
         \<and> fld (fld hmacZcap ''invocationTarget'') ''id'' = fld hmac ''id''
         \<and> fld (fld hmacZcap ''invocationTarget'') ''type'' = fld hmac ''type''
         \<and> fld hmacZcap ''parentCapability'' = fld hmac ''id''
         \<and> fld kak ''referenceId'' = JStr (toStr referenceIdPrefix @ ''-edv-kak'')
         \<and> fld kak ''allowedAction'' = JArr [JStr ''deriveSecret'', JStr ''sign'']
         \<and> fld kak ''controller'' = profileAgentId
         \<and> fld (fld kak ''invocationTarget'') ''id'' = fld keyAgreementKey ''id''
         \<and> fld (fld kak ''invocationTarget'') ''type'' = fld keyAgreementKey ''type''
         \<and> fld kak ''parentCapability'' = fld keyAgreementKey ''id''))
    \<and> ((\<forall>h c. \<exists>p. respond env h (DelegateCapability c) = Inr p) \<longrightarrow>
         (\<exists>res s'. delegateEdvCapabilities env edvId hmac keyAgreementKey parentCapabilities
            signer profileAgentId referenceIdPrefix s = (Inr res, s')))"
proof (intro conjI allI impI)
  fix res s'
  assume run: "delegateEdvCapabilities env edvId hmac keyAgreementKey parentCapabilities signer
        profileAgentId referenceIdPrefix s = (Inr res, s')"
  from delegate3_Inr [OF run [unfolded delegateEdvCapabilities_fresh [OF assms]]]
  obtain p1 p2 p3 where res: "res = JObj [(''zcaps'', JArr [
            mkObj (spread (JObj [
              (''referenceId'', JStr (toStr referenceIdPrefix @ ''-edv-documents'')),
              (''allowedAction'', JArr [JStr ''read'', JStr ''write'']),
              (''controller'', profileAgentId),
              (''invocationTarget'', JObj [
                 (''id'', JStr (toStr edvId @ ''/documents'')),
                 (''type'', JStr ''urn:edv:documents'')]),
              (''parentCapability'', JStr (toStr edvId @ ''/zcaps/documents''))]) @ [(''proof'', p1)]),
            mkObj (spread (JObj [
              (''referenceId'', JStr (toStr referenceIdPrefix @ ''-edv-hmac'')),
              (''allowedAction'', JStr ''sign''),
              (''controller'', profileAgentId),
              (''invocationTarget'', JObj [
                 (''id'', fld hmac ''id''),
                 (''type'', fld hmac ''type''),
                 (''verificationMethod'', fld hmac ''id'')]),
              (''parentCapability'', fld hmac ''id'')]) @ [(''proof'', p2)]),
            mkObj (spread (JObj [
              (''referenceId'', JStr (toStr referenceIdPrefix @ ''-edv-kak'')),
              (''allowedAction'', JArr [JStr ''deriveSecret'', JStr ''sign'']),
              (''controller'', profileAgentId),
              (''invocationTarget'', JObj [
                 (''id'', fld keyAgreementKey ''id''),
                 (''type'', fld keyAgreementKey ''type''),
                 (''verificationMethod'', fld keyAgreementKey ''id'')]),
              (''parentCapability'', fld keyAgreementKey ''id'')]) @ [(''proof'', p3)])])]"
    by blast
  show "\<exists>documents hmacZcap kak.
         res = JObj [(''zcaps'', JArr [documents, hmacZcap, kak])]
         \<and> fld documents ''referenceId'' = JStr (toStr referenceIdPrefix @ ''-edv-documents'')
         \<and> fld documents ''allowedAction'' = JArr [JStr ''read'', JStr ''write'']
         \<and> fld documents ''controller'' = profileAgentId
         \<and> fld documents ''invocationTarget'' = JObj [
              (''id'', JStr (toStr edvId @ ''/documents'')), (''type'', JStr ''urn:edv:documents'')]
         \<and> fld documents ''parentCapability'' = JStr (toStr edvId @ ''/zcaps/documents'')
         \<and> fld hmacZcap ''referenceId'' = JStr (toStr referenceIdPrefix @ ''-edv-hmac'')
         \<and> fld hmacZcap ''allowedAction'' = JStr ''sign''
         \<and> fld hmacZcap ''controller'' = profileAgentId
         \<and> fld (fld hmacZcap ''invocationTarget'') ''id'' = fld hmac ''id''
         \<and> fld (fld hmacZcap ''invocationTarget'') ''type'' = fld hmac ''type''
         \<and> fld hmacZcap ''parentCapability'' = fld hmac ''id''
         \<and> fld kak ''referenceId'' = JStr (toStr referenceIdPrefix @ ''-edv-kak'')
         \<and> fld kak ''allowedAction'' = JArr [JStr ''deriveSecret'', JStr ''sign'']
         \<and> fld kak ''controller'' = profileAgentId
         \<and> fld (fld kak ''invocationTarget'') ''id'' = fld keyAgreementKey ''id''
         \<and> fld (fld kak ''invocationTarget'') ''type'' = fld keyAgreementKey ''type''
         \<and> fld kak ''parentCapability'' = fld keyAgreementKey ''id''"
    unfolding res by (simp add: mkObj_def)
next
  assume ok: "\<forall>h c. \<exists>p. respond env h (DelegateCapability c) = Inr p"
  show "\<exists>res s'. delegateEdvCapabilities env edvId hmac keyAgreementKey parentCapabilities
            signer profileAgentId referenceIdPrefix s = (Inr res, s')"
    unfolding delegateEdvCapabilities_fresh [OF assms]
    by (rule delegate3_total [OF ok])
qed

theorem delegateEdvCapabilities_fresh_keys_witness:
  "\<exists>documents hmacZcap kak s'.
     delegateEdvCapabilities sampleEnv (JStr ''https://edvs/edv1'') sampleHmac sampleKak JUndef
       (JObj [(''id'', JStr ''did:v1:test:abc#key1'')]) (JStr ''did:key:agent1'')
       (JStr ''example'') sampleManager
     = (Inr (JObj [(''zcaps'', JArr [documents, hmacZcap, kak])]), s')
     \<and> fld documents ''referenceId'' = JStr ''example-edv-documents''
     \<and> fld hmacZcap ''referenceId'' = JStr ''example-edv-hmac''
     \<and> fld kak ''referenceId'' = JStr ''example-edv-kak''
     \<and> fld documents ''parentCapability'' = JStr ''https://edvs/edv1/zcaps/documents''
     \<and> fld hmacZcap ''parentCapability'' = JStr ''https://kms/keystores/ks1/keys/hmac1''
     \<and> fld kak ''parentCapability'' = JStr ''https://kms/keystores/ks1/keys/kak1''"
proof -
  have t: "truthy (JStr ''https://edvs/edv1'')" "truthy sampleHmac" "truthy sampleKak"
    by (simp_all add: sampleHmac_def sampleKak_def)
  have ok: "\<forall>h c. \<exists>p. respond sampleEnv h (DelegateCapability c) = Inr p"
    by (simp add: sampleEnv_def)
  note inst = delegateEdvCapabilities_fresh_keys_three_capabilities [OF t,
      of sampleEnv JUndef "JObj [(''id'', JStr ''did:v1:test:abc#key1'')]"
        "JStr ''did:key:agent1''" "JStr ''example''" sampleManager]
  from inst ok obtain res s' where
    run: "delegateEdvCapabilities sampleEnv (JStr ''https://edvs/edv1'') sampleHmac sampleKak
       JUndef (JObj [(''id'', JStr ''did:v1:test:abc#key1'')]) (JStr ''did:key:agent1'')
       (JStr ''example'') sampleManager = (Inr res, s')"
    by blast
  from inst run show ?thesis
    by (fastforce simp: sampleHmac_def sampleKak_def)
qed

subsection \<open>The content of an agent without a user document\<close>

lemmas run_defs = bnd_def ret_def throw_def settle_def startPromise_def modify_def reads_def
  tryFinally_def getProp_def collab_def ensureNamespace_def
  nsGet_def nsSet_def requestsGet_def requestsSet_def requestsDelete_def

lemma getAgentRecord_calls:
  assumes "getAgentRecord env profileId s = (r, s1)"
  shows "calls s1 = calls s \<or>
         calls s1 = calls s @ [GetAgentByProfile (JObj [
           (''profile'', profileId), (''account'', accountId s)])]"
  using assms
  by (auto simp: getAgentRecord_def getAgentRecord_begin_def getAgentRecord_end_def run_defs
      Let_def split: if_splits option.splits sum.splits prod.splits)

lemma zcapsByReferenceId_ok:
  "\<forall>z \<in> set zs. \<not> nullish z \<Longrightarrow>
   zcapsByReferenceId zs acc =
     Inr (foldl (\<lambda>a z. AList.update (toStr (fld z ''referenceId'')) z a) acc zs)"
  by (induction zs arbitrary: acc) simp_all

lemma map_of_foldl_update_other:
  "k \<notin> f ` set zs \<Longrightarrow>
   map_of (foldl (\<lambda>a z. AList.update (f z) z a) acc zs) k = map_of acc k"
  by (induction zs arbitrary: acc) (simp_all add: update_conv')

lemma map_of_foldl_update_distinct:
  "distinct (map f zs) \<Longrightarrow> z \<in> set zs \<Longrightarrow>
   map_of (foldl (\<lambda>a z. AList.update (f z) z a) acc zs) (f z) = Some z"
proof (induction zs arbitrary: acc)
  case Nil
  then show ?case by simp
next
  case (Cons x xs)
  show ?case
  proof (cases "z = x")
    case True
    with Cons.prems have "f z \<notin> f ` set xs" by auto
    then show ?thesis using True by (simp add: map_of_foldl_update_other update_conv')
  next
    case False
    with Cons show ?thesis by simp
  qed
qed

lemma keys_foldl_update:
  "fst ` set (foldl (\<lambda>a z. AList.update (f z) z a) acc zs) = fst ` set acc \<union> f ` set zs"
  by (induction zs arbitrary: acc) (auto simp: dom_update)

text \<open>
  Claim C10. For a profile (a non-empty identifier) whose agent record is obtained and holds
  no \<open>userDocument\<close> capability, the capabilities of the record being objects with distinct
  \<open>referenceId\<close>s, \<open>getAgent\<close> returns the object \<open>{id, zcaps}\<close> with the agent's id and a map
  that holds every capability of the record under its \<open>referenceId\<close>, and no other key. The
  state is the one that getting the record left: the only collaborator operation that can
  have been made is the backend's \<open>getAgentByProfile\<close>; the store is not read.
\<close>

theorem getAgent_without_userDocument_synthesizes_content:
  assumes pid: "profileId = JStr p" "p \<noteq> []"
    and fetched: "getAgentRecord env profileId s = (Inr agentRecord, s1)"
    and agent: "fld agentRecord ''profileAgent'' = profileAgent"
    and zcaps: "fld profileAgent ''zcaps'' = JObj kvs"
    and nouser: "\<not> truthy (fld (JObj kvs) ''userDocument'')"
    and objs: "\<forall>z \<in> snd ` set kvs. \<not> nullish z"
    and uniq: "distinct (map (\<lambda>z. toStr (fld z ''referenceId'')) (map snd kvs))"
  shows "\<exists>m. getAgent env profileId s =
             (Inr (JObj [(''id'', fld profileAgent ''id''), (''zcaps'', JObj m)]), s1)
           \<and> (\<forall>z \<in> snd ` set kvs. map_of m (toStr (fld z ''referenceId'')) = Some z)
           \<and> fst ` set m = (\<lambda>z. toStr (fld z ''referenceId'')) ` snd ` set kvs
           \<and> (calls s1 = calls s \<or> (\<exists>q. calls s1 = calls s @ [GetAgentByProfile q]))"
proof -
  let ?key = "\<lambda>z. toStr (fld z ''referenceId'')"
  let ?m = "foldl (\<lambda>a z. AList.update (?key z) z a) [] (map snd kvs)"
  have pa: "\<not> nullish profileAgent" using zcaps by (cases profileAgent) auto
  have rec: "\<not> nullish agentRecord" using agent pa by (cases agentRecord) auto
  have loop: "zcapsByReferenceId (map snd kvs) [] = Inr ?m"
    using objs by (intro zcapsByReferenceId_ok) auto
  have run: "getAgent env profileId s =
      (Inr (JObj [(''id'', fld profileAgent ''id''), (''zcaps'', JObj ?m)]), s1)"
    using fetched pid pa rec nouser agent zcaps loop
    by (simp add: getAgent_def nonEmptyString_ok bnd_def getProp_def ret_def settle_def)
  have look: "\<forall>z \<in> snd ` set kvs. map_of ?m (?key z) = Some z"
    using map_of_foldl_update_distinct [OF uniq] by auto
  have keys: "fst ` set ?m = ?key ` snd ` set kvs"
    by (simp add: keys_foldl_update)
  from getAgentRecord_calls [OF fetched]
  have c: "calls s1 = calls s \<or> (\<exists>q. calls s1 = calls s @ [GetAgentByProfile q])" by blast
  show ?thesis using run look keys c by blast
qed

lemma sample_getAgentRecord:
  "fst (getAgentRecord sampleEnv (JStr ''did:v1:test:abc'') sampleManager) = Inr sampleAgentRecord"
  by (simp add: getAgentRecord_def getAgentRecord_begin_def getAgentRecord_end_def run_defs
      newCache_def cache_get_def cache_lookup_def sampleEnv_def sampleManager_def Let_def)

theorem getAgent_without_userDocument_witness:
  "\<exists>m s1. getAgent sampleEnv (JStr ''did:v1:test:abc'') sampleManager =
       (Inr (JObj [(''id'', JStr ''did:key:agent1''), (''zcaps'', JObj m)]), s1)
     \<and> map_of m ''did:v1:test:abc-key-capabilityInvocation'' = Some sampleInvocationKeyZcap"
proof -
  obtain s1 where fetched:
    "getAgentRecord sampleEnv (JStr ''did:v1:test:abc'') sampleManager = (Inr sampleAgentRecord, s1)"
    using sample_getAgentRecord by (metis prod.collapse)
  have "\<exists>m. getAgent sampleEnv (JStr ''did:v1:test:abc'') sampleManager =
             (Inr (JObj [(''id'', fld (fld sampleAgentRecord ''profileAgent'') ''id''),
                (''zcaps'', JObj m)]), s1)
           \<and> (\<forall>z \<in> snd ` set [(''profileCapabilityInvocationKey'', sampleInvocationKeyZcap)].
                 map_of m (toStr (fld z ''referenceId'')) = Some z)
           \<and> fst ` set m = (\<lambda>z. toStr (fld z ''referenceId'')) `
                 snd ` set [(''profileCapabilityInvocationKey'', sampleInvocationKeyZcap)]
           \<and> (calls s1 = calls sampleManager \<or>
               (\<exists>q. calls s1 = calls sampleManager @ [GetAgentByProfile q]))"
    by (rule getAgent_without_userDocument_synthesizes_content [OF refl _ fetched])
       (simp_all add: sampleAgentRecord_def sampleInvocationKeyZcap_def)
  then show ?thesis
    by (auto simp: sampleAgentRecord_def sampleInvocationKeyZcap_def)
qed

subsection \<open>A capability that the agent does not have\<close>

lemmas sample_defs = sampleEnv_def sampleManager_def sampleAgentRecord_def
  sampleInvocationKeyZcap_def

lemmas method_defs = getAgent_def getAgentRecord_def getAgentRecord_begin_def
  getAgentRecord_end_def getCapability_def getCapability_begin_def getCapability_end_def
  getCapability_body_def getInvocationSigner_def capabilityAgent_getSigner_def
  getProfileInvocationZcapKeyReferenceId_def nonEmptyString_def dflt_def newCache_def
  cache_get_def cache_lookup_def cache_set_def

text \<open>
  Claim C6 (the code departs from it). The sample agent has no capability for the store
  \<open>example\<close> and none for the profile's own store. \<open>getProfileEdvAccess\<close> and
  \<open>getAccessManager\<close> fail, but with the error that \<open>getCapability\<close> throws for the first
  capability it misses, which names the agent and the capability and not the profile
  \<open>did:v1:test:abc\<close>: the check that would throw the authorization error naming the agent and
  the profile is never reached.
\<close>

theorem missing_capability_error_names_no_profile:
  "fst (getProfileEdvAccess sampleEnv (JStr ''did:v1:test:abc'') (JStr ''example'') JUndef
          sampleManager)
     = Inl (ErrorMsg ''The agent \"did:key:agent1\" does not have the zcap: \"example-edv-documents\"'')
   \<and> fst (getAccessManager sampleEnv (JStr ''did:v1:test:abc'') JUndef sampleManager)
     = Inl (ErrorMsg ''The agent \"did:key:agent1\" does not have the zcap: \"profile-edv-document\"'')
   \<and> \<not> includesStr
         ''The agent \"did:key:agent1\" does not have the zcap: \"example-edv-documents\"''
         ''did:v1:test:abc''
   \<and> \<not> includesStr
         ''The agent \"did:key:agent1\" does not have the zcap: \"profile-edv-document\"''
         ''did:v1:test:abc''"
proof (intro conjI)
  show "fst (getProfileEdvAccess sampleEnv (JStr ''did:v1:test:abc'') (JStr ''example'') JUndef
          sampleManager)
     = Inl (ErrorMsg ''The agent \"did:key:agent1\" does not have the zcap: \"example-edv-documents\"'')"
    by (simp add: getProfileEdvAccess_def method_defs run_defs sample_defs Let_def
        PROFILE_INVOCATION_ZCAP_REFERENCE_ID_def)
  show "fst (getAccessManager sampleEnv (JStr ''did:v1:test:abc'') JUndef sampleManager)
     = Inl (ErrorMsg ''The agent \"did:key:agent1\" does not have the zcap: \"profile-edv-document\"'')"
    by (simp add: getAccessManager_def getProfile_def method_defs run_defs sample_defs Let_def
        PROFILE_INVOCATION_ZCAP_REFERENCE_ID_def EDVS_profileDoc_def EDVS_userDocs_def
        EDVS_userKak_def EDVS_userHmac_def)
  show "\<not> includesStr
         ''The agent \"did:key:agent1\" does not have the zcap: \"example-edv-documents\"''
         ''did:v1:test:abc''"
    by (simp add: startsWith_def)
  show "\<not> includesStr
         ''The agent \"did:key:agent1\" does not have the zcap: \"profile-edv-document\"''
         ''did:v1:test:abc''"
    by (simp add: startsWith_def)
qed

subsection \<open>A change of the session\<close>

lemma collab_run:
  "collab env c s =
     (respond env (calls s) c,
      s\<lparr>calls := calls s @ [c], clock := clock s + latency env (calls s) c\<rparr>)"
  by (simp add: collab_def)

lemma bnd_reads_run: "bnd (reads f) g s = g (f s) s"
  by (simp add: bnd_def reads_def)

text \<open>What \<open>_sessionChanged\<close> does after the purge: the new account is recorded, the
  signing identity is dropped and every cache namespace is gone, whatever follows.\<close>

lemma sessionChanged_after_purge:
  assumes "bnd (modify (\<lambda>s. s\<lparr>accountId := newAccountId, capabilityAgent := JNull,
            keystoreAgent := JNull\<rparr>)) (\<lambda>_.
     bnd resetCache (\<lambda>_.
     if \<not> (truthy authentication \<or> truthy given) then ret ()
     else
       bnd (collab env (CapabilityAgentFromCache (JObj [(''handle'', newAccountId)])))
         (\<lambda>cachedAgent.
       bnd (modify (\<lambda>s. s\<lparr>capabilityAgent := cachedAgent\<rparr>)) (\<lambda>_.
       if cachedAgent = JNull then
         bnd (collab env (GetRandomValues 32)) (\<lambda>secret.
         bnd (collab env (CapabilityAgentFromSecret (JObj [
                (''secret'', secret), (''handle'', newAccountId)]))) (\<lambda>freshAgent.
         modify (\<lambda>s. s\<lparr>capabilityAgent := freshAgent\<rparr>)))
       else ret ())))) s = (r, s')"
  shows "pm_cache s' = Map.empty \<and> accountId s' = newAccountId
         \<and> (\<exists>rest. calls s' = calls s @ rest)"
  using assms
  by (auto simp: bnd_def modify_def resetCache_def ret_def collab_run
      split: if_splits sum.splits prod.splits)

text \<open>
  Claim C7. On a session-change notification (with session data whose account is not
  \<open>null\<close>), for a manager whose current account id is \<open>null\<close> or a non-empty string: when
  that id is not \<open>null\<close> and differs from the new one, the first operation made is the purge
  of the \<open>CapabilityAgent\<close> cache entry of the old handle, followed, once that purge is done,
  by the clearing of the EDV client cache. Whether or not there was anything to purge (and
  the purge, when made, not failing), the manager ends with the new account id and with no
  cache namespace at all, also when loading the new signing identity fails afterwards: no
  entry of the capability, agent-record, agent-content or signer caches survives.
\<close>

theorem sessionChanged_purges_old_account_and_resets_caches:
  assumes data: "\<not> nullish newData" "fld newData ''account'' \<noteq> JNull"
    and old: "accountId s = JNull \<or> (\<exists>a. accountId s = JStr a \<and> a \<noteq> [])"
    and new: "newAccountId = dflt (fld (dflt (fld newData ''account'') (JObj [])) ''id'') JNull"
    and purge: "purge = CapabilityAgentClearCache (JObj [(''handle'', accountId s)])"
    and run: "sessionChanged env authentication newData s = (r, s')"
  shows
    "(accountId s \<noteq> JNull \<and> accountId s \<noteq> newAccountId \<longrightarrow>
        (\<exists>rest. calls s' = calls s @ purge # rest))
     \<and> (accountId s \<noteq> JNull \<and> accountId s \<noteq> newAccountId
          \<and> (\<exists>v. respond env (calls s) purge = Inr v) \<longrightarrow>
        (\<exists>rest. calls s' = calls s @ purge # EdvClientCacheClear # rest))
     \<and> (\<not> (accountId s \<noteq> JNull \<and> accountId s \<noteq> newAccountId)
          \<or> ((\<exists>v. respond env (calls s) purge = Inr v)
              \<and> (\<exists>v. respond env (calls s @ [purge]) EdvClientCacheClear = Inr v)) \<longrightarrow>
        pm_cache s' = Map.empty \<and> accountId s' = newAccountId)"
proof -
  let ?rest = "bnd (modify (\<lambda>s. s\<lparr>accountId := newAccountId, capabilityAgent := JNull,
            keystoreAgent := JNull\<rparr>)) (\<lambda>_.
     bnd resetCache (\<lambda>_.
     if \<not> (truthy authentication \<or> truthy (fld newData ''account'')) then ret ()
     else
       bnd (collab env (CapabilityAgentFromCache (JObj [(''handle'', newAccountId)])))
         (\<lambda>cachedAgent.
       bnd (modify (\<lambda>s. s\<lparr>capabilityAgent := cachedAgent\<rparr>)) (\<lambda>_.
       if cachedAgent = JNull then
         bnd (collab env (GetRandomValues 32)) (\<lambda>secret.
         bnd (collab env (CapabilityAgentFromSecret (JObj [
                (''secret'', secret), (''handle'', newAccountId)]))) (\<lambda>freshAgent.
         modify (\<lambda>s. s\<lparr>capabilityAgent := freshAgent\<rparr>)))
       else ret ()))))"
  have acct: "\<not> nullish (dflt (fld newData ''account'') (JObj []))"
    using data(2) by (cases "fld newData ''account''") (simp_all add: dflt_def)
  have unfold: "sessionChanged env authentication newData s =
     bnd (if truthy (accountId s) \<and> accountId s \<noteq> newAccountId then
            bnd (collab env purge) (\<lambda>_. bnd (collab env EdvClientCacheClear) (\<lambda>_. ret ()))
          else ret ()) (\<lambda>_. ?rest) s"
    using data(1) acct unfolding new purge
    by (simp add: sessionChanged_def getProp_def Let_def bnd_reads_run split del: if_split
        cong: if_weak_cong)
  have truth: "truthy (accountId s) \<longleftrightarrow> accountId s \<noteq> JNull"
    using old by auto
  show ?thesis
  proof (cases "accountId s \<noteq> JNull \<and> accountId s \<noteq> newAccountId")
    case False
    with run unfold truth have "?rest s = (r, s')" by auto
    from sessionChanged_after_purge [OF this] False show ?thesis by auto
  next
    case True
    show ?thesis
    proof (cases "respond env (calls s) purge")
      case (Inl e)
      with run unfold truth True have "calls s' = calls s @ [purge]"
        by (auto simp: bnd_def collab_run)
      with True Inl show ?thesis by auto
    next
      case first: (Inr v)
      let ?s1 = "s\<lparr>calls := calls s @ [purge],
                   clock := clock s + latency env (calls s) purge\<rparr>"
      show ?thesis
      proof (cases "respond env (calls s @ [purge]) EdvClientCacheClear")
        case (Inl e)
        with run unfold truth True first
        have "calls s' = calls s @ [purge, EdvClientCacheClear]"
          by (auto simp: bnd_def collab_run)
        with True first Inl show ?thesis by auto
      next
        case (Inr w)
        let ?s2 = "?s1\<lparr>calls := calls ?s1 @ [EdvClientCacheClear],
                     clock := clock ?s1 + latency env (calls ?s1) EdvClientCacheClear\<rparr>"
        from run unfold truth True first Inr have "?rest ?s2 = (r, s')"
          by (auto simp: bnd_def collab_run ret_def)
        from sessionChanged_after_purge [OF this] True first Inr show ?thesis by auto
      qed
    qed
  qed
qed

theorem sessionChanged_witness:
  "\<exists>r s'. sessionChanged sampleEnv JUndef
       (JObj [(''account'', JObj [(''id'', JStr ''urn:uuid:account2'')])])
       (sampleManager\<lparr>pm_cache := [''agent-records'' \<mapsto> newCache (Some 250)]\<rparr>) = (r, s')
     \<and> pm_cache s' = Map.empty
     \<and> accountId s' = JStr ''urn:uuid:account2''
     \<and> (\<exists>rest. calls s' =
           CapabilityAgentClearCache (JObj [(''handle'', JStr ''urn:uuid:account1'')])
             # EdvClientCacheClear # rest)"
proof -
  let ?s = "sampleManager\<lparr>pm_cache := [''agent-records'' \<mapsto> newCache (Some 250)]\<rparr>"
  let ?data = "JObj [(''account'', JObj [(''id'', JStr ''urn:uuid:account2'')])]"
  obtain r s' where run: "sessionChanged sampleEnv JUndef ?data ?s = (r, s')"
    by (cases "sessionChanged sampleEnv JUndef ?data ?s") blast
  have "(accountId ?s \<noteq> JNull \<and> accountId ?s \<noteq> JStr ''urn:uuid:account2'' \<longrightarrow>
        (\<exists>rest. calls s' = calls ?s
             @ CapabilityAgentClearCache (JObj [(''handle'', accountId ?s)]) # rest))
     \<and> (accountId ?s \<noteq> JNull \<and> accountId ?s \<noteq> JStr ''urn:uuid:account2''
          \<and> (\<exists>v. respond sampleEnv (calls ?s)
                 (CapabilityAgentClearCache (JObj [(''handle'', accountId ?s)])) = Inr v) \<longrightarrow>
        (\<exists>rest. calls s' = calls ?s
             @ CapabilityAgentClearCache (JObj [(''handle'', accountId ?s)])
             # EdvClientCacheClear # rest))
     \<and> (\<not> (accountId ?s \<noteq> JNull \<and> accountId ?s \<noteq> JStr ''urn:uuid:account2'')
          \<or> ((\<exists>v. respond sampleEnv (calls ?s)
                  (CapabilityAgentClearCache (JObj [(''handle'', accountId ?s)])) = Inr v)
              \<and> (\<exists>v. respond sampleEnv
                  (calls ?s @ [CapabilityAgentClearCache (JObj [(''handle'', accountId ?s)])])
                  EdvClientCacheClear = Inr v)) \<longrightarrow>
        pm_cache s' = Map.empty \<and> accountId s' = JStr ''urn:uuid:account2'')"
    by (rule sessionChanged_purges_old_account_and_resets_caches [OF _ _ _ _ refl run])
       (simp_all add: sampleManager_def dflt_def)
  then have "pm_cache s' = Map.empty \<and> accountId s' = JStr ''urn:uuid:account2''
     \<and> (\<exists>rest. calls s' =
           CapabilityAgentClearCache (JObj [(''handle'', JStr ''urn:uuid:account1'')])
             # EdvClientCacheClear # rest)"
    by (simp add: sampleManager_def sampleEnv_def)
  with run show ?thesis by blast
qed

subsection \<open>Resolving a capability\<close>

lemma bnd_run_Inr: "m s = (Inr x, s') \<Longrightarrow> bnd m f s = f x s'"
  by (simp add: bnd_def)

lemma bnd_run_Inl: "m s = (Inl e, s') \<Longrightarrow> bnd m f s = (Inl e, s')"
  by (simp add: bnd_def)

lemma bnd_assoc: "bnd (bnd m f) g = bnd m (\<lambda>x. bnd (f x) g)"
  by (auto simp: bnd_def fun_eq_iff split: prod.splits sum.splits)

lemma ensureNamespace_run:
  "ensureNamespace ns age s =
     (Inr (), if pm_cache s ns \<noteq> None then s
              else s\<lparr>pm_cache := (pm_cache s)(ns \<mapsto> newCache age)\<rparr>)"
  by (simp add: ensureNamespace_def modify_def)

lemma nsGet_run:
  "pm_cache s ns = Some c \<Longrightarrow> nsGet ns key s = (Inr (cache_get (clock s) c key), s)"
  by (simp add: nsGet_def)

lemma nsSet_run:
  "pm_cache s ns = Some c \<Longrightarrow>
   nsSet ns key v s = (Inr (), s\<lparr>pm_cache := (pm_cache s)(ns \<mapsto> cache_set (clock s) c key v)\<rparr>)"
  by (simp add: nsSet_def modify_def)

lemma cache_get_fresh: "cache_get t (cache_set t c k v) k = v"
  by (simp add: cache_get_def cache_lookup_def cache_set_def split: option.splits)

lemma cache_get_new: "cache_get t (newCache age) k = JUndef"
  by (simp add: cache_get_def cache_lookup_def newCache_def)

text \<open>Resolving a signer adds to the caches and to the log; it removes no namespace and
  touches no promise in flight.\<close>

lemma getInvocationSigner_frame:
  assumes "getInvocationSigner env agentId invoker s = (r, s')"
  shows "pm_requests s' = pm_requests s \<and> (pm_cache s ns \<noteq> None \<longrightarrow> pm_cache s' ns \<noteq> None)"
  using assms
  by (auto simp: getInvocationSigner_def capabilityAgent_getSigner_def nonEmptyString_def
      run_defs Let_def split: if_splits option.splits sum.splits prod.splits jv.splits)

lemma fld_mkObj_append3:
  assumes "k1 \<noteq> k2" "k1 \<noteq> k3" "k2 \<noteq> k3"
  shows "fld (mkObj (xs @ [(k1, v1), (k2, v2), (k3, v3)])) k1 = v1"
    and "fld (mkObj (xs @ [(k1, v1), (k2, v2), (k3, v3)])) k2 = v2"
    and "fld (mkObj (xs @ [(k1, v1), (k2, v2), (k3, v3)])) k3 = v3"
  using assms by (simp_all add: mkObj_def update_conv')

lemma resolvesTo_run:
  assumes "resolvesTo zcapId profileId profileAgent referenceId"
  shows "(if zcapId = JStr PROFILE_INVOCATION_ZCAP_REFERENCE_ID then
            bnd (nonEmptyString profileId ''profileId'') (\<lambda>_.
            getProfileInvocationZcapKeyReferenceId profileId (fld profileAgent ''zcaps''))
          else ret zcapId) = ret referenceId"
proof (cases "zcapId = JStr PROFILE_INVOCATION_ZCAP_REFERENCE_ID")
  case False
  with assms show ?thesis by (simp add: resolvesTo_def)
next
  case True
  with assms obtain p k where p: "profileId = JStr p" "p \<noteq> []"
    and k: "find (\<lambda>r. startsWith r p \<and> endsWith r ''-key-capabilityInvocation'')
              (map fst (spread (fld profileAgent ''zcaps''))) = Some k"
    and r: "referenceId = JStr k"
    by (auto simp: resolvesTo_def split: jv.splits option.splits)
  have "\<not> nullish (fld profileAgent ''zcaps'')"
    using k by (cases "fld profileAgent ''zcaps''") auto
  with True p k r show ?thesis
    by (simp add: nonEmptyString_ok getProfileInvocationZcapKeyReferenceId_def)
qed

text \<open>The promise's body on a cache miss, up to the choice by invoker.\<close>

lemma getCapability_body_miss:
  assumes ns: "pm_cache s0 ck = Some c"
    and miss: "\<not> truthy (cache_get (clock s0) c key)"
    and signer: "getInvocationSigner env (fld profileAgent ''id'') (JStr ''agent'') s0
                   = (Inr agentSigner, s1)"
    and ref: "resolvesTo zcapId profileId profileAgent referenceId"
    and base: "truthy (fld (fld profileAgent ''zcaps'') (toStr referenceId))"
  shows "getCapability_body env ck key zcapId profileAgent profileId invoker s0 =
     bnd (if invoker = JStr ''local'' then
            bnd (getInvocationSigner env JUndef (JStr ''local'')) (\<lambda>localSigner.
            bnd (getProp localSigner ''id'') (\<lambda>localSignerId.
            utils_delegateCapability env (JObj [
              (''signer'', agentSigner),
              (''request'', mkObj (spread (fld (fld profileAgent ''zcaps'') (toStr referenceId)) @ [
                 (''parentCapability'', fld (fld profileAgent ''zcaps'') (toStr referenceId)),
                 (''controller'', localSignerId)]))])))
          else if invoker = JStr ''agent'' then
            ret (fld (fld profileAgent ''zcaps'') (toStr referenceId))
          else throw (ErrorMsg ''Unsupported invoker for capability.'')) (\<lambda>zcap.
     bnd (nsSet ck key zcap) (\<lambda>_. ret zcap)) s1"
proof -
  have z: "\<not> nullish (fld profileAgent ''zcaps'')"
    using base by (cases "fld profileAgent ''zcaps''") auto
  have cached: "bnd (nsGet ck key) F s0 = F (cache_get (clock s0) c key) s0" for F
    using nsGet_run [OF ns, of key] by (simp add: bnd_def)
  have signed: "bnd (getInvocationSigner env (fld profileAgent ''id'') (JStr ''agent'')) F s0
      = F agentSigner s1" for F
    using signer by (simp add: bnd_def)
  show ?thesis
    unfolding getCapability_body_def
    by (simp add: cached miss signed resolvesTo_run [OF ref] getProp_def z base
        split del: if_split cong: if_weak_cong)
qed

text \<open>The whole call when no promise is in flight under its key: the body runs once, and
  the entry of the promise is removed at the end.\<close>

lemma getCapability_not_in_flight:
  assumes agent: "\<not> nullish profileAgent"
    and ck: "ck = ''profileAgent-'' @ toStr (fld profileAgent ''id'') @ ''-zcaps''"
    and key: "key = ck @ ''-'' @ toStr zcapId @ ''-'' @ toStr (dflt invoker (JStr ''local''))"
    and idle: "pm_requests s key = None"
    and body: "getCapability_body env ck key zcapId profileAgent profileId
                 (dflt invoker (JStr ''local'')) (snd (ensureNamespace ck None s)) = (r, s2)"
  shows "getCapability env zcapId profileAgent profileId invoker s =
           (r, s2\<lparr>pm_requests := (pm_requests s2)(key := None)\<rparr>)"
proof -
  have idle0: "pm_requests (snd (ensureNamespace ck None s)) key = None"
    using idle by (simp add: ensureNamespace_run)
  show ?thesis
    using agent idle0 body unfolding ck key
    by (simp add: getCapability_def getCapability_begin_def getCapability_end_def Let_def
        getProp_def bnd_def ret_def requestsGet_def reads_def startPromise_def
        requestsSet_def requestsDelete_def modify_def tryFinally_def settle_def
        ensureNamespace_run split: if_splits)
qed

text \<open>An object literal read back: the last write of a key wins.\<close>

lemma map_of_foldl_update:
  "map_of (foldl (\<lambda>acc kv. AList.update (fst kv) (snd kv) acc) acc kvs)
     = map_of acc ++ map_of (rev kvs)"
proof (induction kvs arbitrary: acc)
  case Nil
  then show ?case by simp
next
  case (Cons kv kvs)
  have "map_of (foldl (\<lambda>acc kv. AList.update (fst kv) (snd kv) acc) acc (kv # kvs))
      = map_of (AList.update (fst kv) (snd kv) acc) ++ map_of (rev kvs)"
    by (simp add: Cons.IH)
  also have "\<dots> = (map_of acc)(fst kv \<mapsto> snd kv) ++ map_of (rev kvs)"
    by (simp only: update_conv')
  also have "\<dots> = map_of acc ++ map_of (rev (kv # kvs))"
    by (cases kv) (auto simp: map_add_def fun_eq_iff split: option.splits)
  finally show ?case .
qed

lemma distinct_foldl_update:
  "distinct (map fst acc) \<Longrightarrow>
   distinct (map fst (foldl (\<lambda>acc kv. AList.update (fst kv) (snd kv) acc) acc kvs))"
  by (induction kvs arbitrary: acc) (simp_all add: distinct_update)

lemma map_of_rev_distinct:
  "distinct (map fst xs) \<Longrightarrow> map_of (rev xs) = map_of xs"
proof (induction xs)
  case Nil
  then show ?case by simp
next
  case (Cons x xs)
  then have "fst x \<notin> dom (map_of xs)" by (simp add: dom_map_of_conv_image_fst)
  with Cons show ?case
    by (auto simp: map_add_def fun_eq_iff split: option.splits)
qed

lemma fld_mkObj: "fld (mkObj kvs) k = (case map_of (rev kvs) k of None \<Rightarrow> JUndef | Some v \<Rightarrow> v)"
  by (simp add: mkObj_def map_of_foldl_update)

lemma map_of_spread_mkObj: "map_of (rev (spread (mkObj kvs))) = map_of (rev kvs)"
proof -
  have "distinct (map fst (foldl (\<lambda>acc kv. AList.update (fst kv) (snd kv) acc) [] kvs))"
    by (rule distinct_foldl_update) simp
  then show ?thesis
    by (simp add: mkObj_def map_of_rev_distinct map_of_foldl_update)
qed

text \<open>The capability that the delegation of \<open>getCapability\<close> gives: the request's
  \<open>parentCapability\<close> and \<open>controller\<close>, and the proof.\<close>

lemma delegated_fields:
  "fld (mkObj (spread (mkObj (xs @ [(''parentCapability'', b), (''controller'', i)]))
          @ [(''proof'', p)])) ''controller'' = i"
  "fld (mkObj (spread (mkObj (xs @ [(''parentCapability'', b), (''controller'', i)]))
          @ [(''proof'', p)])) ''parentCapability'' = b"
  "fld (mkObj (spread (mkObj (xs @ [(''parentCapability'', b), (''controller'', i)]))
          @ [(''proof'', p)])) ''proof'' = p"
  by (simp_all add: fld_mkObj map_of_spread_mkObj map_add_def)

text \<open>
  Claim C5. For a call of \<open>getCapability\<close> that finds no promise in flight and no cached
  value under its key, whose agent signer is resolved and whose logical id resolves to a
  capability \<open>base\<close> present in the profile agent's map:
  with invoker \<open>agent\<close> the result is \<open>base\<close> itself;
  with an invoker other than \<open>local\<close> (the default) and \<open>agent\<close> the call rejects with
  \<open>Unsupported invoker for capability.\<close>;
  with invoker \<open>local\<close>, the local signer being resolved and the delegation collaborator giving
  a proof, the result is a new capability whose \<open>controller\<close> is the local signer's id and
  whose \<open>parentCapability\<close> is \<open>base\<close>, and at the end the cache of the agent's capabilities
  holds it under the key \<open>profileAgent-{agent id}-zcaps-{logical id}-local\<close>.
\<close>

theorem getCapability_result_by_invoker:
  assumes agent: "\<not> nullish profileAgent"
    and ck: "ck = ''profileAgent-'' @ toStr (fld profileAgent ''id'') @ ''-zcaps''"
    and key: "key = ck @ ''-'' @ toStr zcapId @ ''-'' @ toStr (dflt invoker (JStr ''local''))"
    and idle: "pm_requests s key = None"
    and miss: "\<forall>c. pm_cache s ck = Some c \<longrightarrow> \<not> truthy (cache_get (clock s) c key)"
    and signer: "getInvocationSigner env (fld profileAgent ''id'') (JStr ''agent'')
                   (snd (ensureNamespace ck None s)) = (Inr agentSigner, s1)"
    and ref: "resolvesTo zcapId profileId profileAgent referenceId"
    and base: "base = fld (fld profileAgent ''zcaps'') (toStr referenceId)" "truthy base"
  shows
   "(invoker = JStr ''agent'' \<longrightarrow>
       (\<exists>s'. getCapability env zcapId profileAgent profileId invoker s = (Inr base, s')))
    \<and> (invoker \<noteq> JUndef \<and> invoker \<noteq> JStr ''local'' \<and> invoker \<noteq> JStr ''agent'' \<longrightarrow>
       (\<exists>s'. getCapability env zcapId profileAgent profileId invoker s
               = (Inl (ErrorMsg ''Unsupported invoker for capability.''), s')))
    \<and> (invoker = JUndef \<or> invoker = JStr ''local'' \<longrightarrow>
       (\<forall>localSigner s2 proof.
          getInvocationSigner env JUndef (JStr ''local'') s1 = (Inr localSigner, s2)
          \<and> \<not> nullish localSigner
          \<and> respond env (calls s2) (DelegateCapability (JObj [
                (''signer'', agentSigner),
                (''request'', mkObj (spread base @ [
                   (''parentCapability'', base),
                   (''controller'', fld localSigner ''id'')]))])) = Inr proof \<longrightarrow>
          (\<exists>zcap s' c.
             getCapability env zcapId profileAgent profileId invoker s = (Inr zcap, s')
             \<and> fld zcap ''controller'' = fld localSigner ''id''
             \<and> fld zcap ''parentCapability'' = base
             \<and> fld zcap ''proof'' = proof
             \<and> pm_cache s' ck = Some c \<and> cache_get (clock s') c key = zcap
             \<and> key = ''profileAgent-'' @ toStr (fld profileAgent ''id'') @ ''-zcaps-''
                     @ toStr zcapId @ ''-local'')))"
proof -
  let ?s0 = "snd (ensureNamespace ck None s)"
  let ?inv = "dflt invoker (JStr ''local'')"
  obtain c0 where ns0: "pm_cache ?s0 ck = Some c0"
    and miss0: "\<not> truthy (cache_get (clock ?s0) c0 key)"
  proof (cases "pm_cache s ck")
    case None
    then have "pm_cache ?s0 ck = Some (newCache None)"
      and "\<not> truthy (cache_get (clock ?s0) (newCache None) key)"
      by (simp_all add: ensureNamespace_run cache_get_new)
    then show ?thesis by (rule that)
  next
    case (Some c)
    with miss have "pm_cache ?s0 ck = Some c" and "\<not> truthy (cache_get (clock ?s0) c key)"
      by (simp_all add: ensureNamespace_run)
    then show ?thesis by (rule that)
  qed
  note body = getCapability_body_miss [OF ns0 miss0 signer ref base(2) [unfolded base(1)],
      where invoker = ?inv, folded base(1)]
  from getInvocationSigner_frame [OF signer, of ck] ns0
  obtain c1 where ns1: "pm_cache s1 ck = Some c1" by auto
  show ?thesis
  proof (intro conjI impI allI)
    assume inv: "invoker = JStr ''agent''"
    have "getCapability_body env ck key zcapId profileAgent profileId ?inv ?s0
        = (Inr base, snd (nsSet ck key base s1))"
      unfolding body using inv ns1
      by (simp add: dflt_def bnd_def nsSet_run ret_def)
    from getCapability_not_in_flight [OF agent ck key idle this]
    show "\<exists>s'. getCapability env zcapId profileAgent profileId invoker s = (Inr base, s')"
      by blast
  next
    assume inv: "invoker \<noteq> JUndef \<and> invoker \<noteq> JStr ''local'' \<and> invoker \<noteq> JStr ''agent''"
    have "getCapability_body env ck key zcapId profileAgent profileId ?inv ?s0
        = (Inl (ErrorMsg ''Unsupported invoker for capability.''), s1)"
      unfolding body using inv
      by (simp add: dflt_def, simp add: throw_run)
    from getCapability_not_in_flight [OF agent ck key idle this]
    show "\<exists>s'. getCapability env zcapId profileAgent profileId invoker s
               = (Inl (ErrorMsg ''Unsupported invoker for capability.''), s')"
      by blast
  next
    fix localSigner s2 "proof"
    assume inv: "invoker = JUndef \<or> invoker = JStr ''local''"
      and loc: "getInvocationSigner env JUndef (JStr ''local'') s1 = (Inr localSigner, s2)
          \<and> \<not> nullish localSigner
          \<and> respond env (calls s2) (DelegateCapability (JObj [
                (''signer'', agentSigner),
                (''request'', mkObj (spread base @ [
                   (''parentCapability'', base),
                   (''controller'', fld localSigner ''id'')]))])) = Inr proof"
    let ?opts = "JObj [
                (''signer'', agentSigner),
                (''request'', mkObj (spread base @ [
                   (''parentCapability'', base),
                   (''controller'', fld localSigner ''id'')]))]"
    let ?zcap = "mkObj (spread (mkObj (spread base @ [
                   (''parentCapability'', base),
                   (''controller'', fld localSigner ''id'')])) @ [(''proof'', proof)])"
    let ?s3 = "s2\<lparr>calls := calls s2 @ [DelegateCapability ?opts],
                 clock := clock s2 + latency env (calls s2) (DelegateCapability ?opts)\<rparr>"
    from getInvocationSigner_frame [OF conjunct1 [OF loc], of ck] ns1
    obtain c2 where ns2: "pm_cache s2 ck = Some c2" by auto
    then have ns3: "pm_cache ?s3 ck = Some c2" by simp
    have inv': "?inv = JStr ''local''" using inv by (auto simp: dflt_def)
    have keyl: "key = ''profileAgent-'' @ toStr (fld profileAgent ''id'') @ ''-zcaps-''
                     @ toStr zcapId @ ''-local''"
      using key ck inv' by simp
    have deleg: "utils_delegateCapability env ?opts s2 = (Inr ?zcap, ?s3)"
      using loc by (simp add: utils_delegateCapability_run)
    have local: "bnd (getInvocationSigner env JUndef (JStr ''local'')) F s1 = F localSigner s2"
      for F :: "jv \<Rightarrow> jv M"
      using loc by (simp add: bnd_def)
    have delegated: "bnd (utils_delegateCapability env ?opts) F s2 = F ?zcap ?s3"
      for F :: "jv \<Rightarrow> jv M"
      using deleg by (simp add: bnd_def)
    have stored: "bnd (nsSet ck key ?zcap) F ?s3
        = F () (?s3\<lparr>pm_cache := (pm_cache ?s3)(ck \<mapsto> cache_set (clock ?s3) c2 key ?zcap)\<rparr>)"
      for F :: "unit \<Rightarrow> jv M"
      using nsSet_run [OF ns3, of key ?zcap] by (simp add: bnd_def)
    have "getCapability_body env ck key zcapId profileAgent profileId ?inv ?s0
        = (Inr ?zcap, ?s3\<lparr>pm_cache := (pm_cache ?s3)(ck \<mapsto> cache_set (clock ?s3) c2 key ?zcap)\<rparr>)"
      unfolding inv' body [unfolded inv']
      apply (simp only: simp_thms if_True bnd_assoc local)
      apply (simp only: getProp_def conjunct1 [OF conjunct2 [OF loc]] if_False bnd_ret delegated)
      apply (simp only: stored ret_run)
      done
    from getCapability_not_in_flight [OF agent ck key idle this]
    have run: "getCapability env zcapId profileAgent profileId invoker s =
       (Inr ?zcap, ?s3\<lparr>pm_cache := (pm_cache ?s3)(ck \<mapsto> cache_set (clock ?s3) c2 key ?zcap),
                     pm_requests := (pm_requests ?s3)(key := None)\<rparr>)"
      by simp
    show "\<exists>zcap s' c.
             getCapability env zcapId profileAgent profileId invoker s = (Inr zcap, s')
             \<and> fld zcap ''controller'' = fld localSigner ''id''
             \<and> fld zcap ''parentCapability'' = base
             \<and> fld zcap ''proof'' = proof
             \<and> pm_cache s' ck = Some c \<and> cache_get (clock s') c key = zcap
             \<and> key = ''profileAgent-'' @ toStr (fld profileAgent ''id'') @ ''-zcaps-''
                     @ toStr zcapId @ ''-local''"
      apply (rule exI [of _ ?zcap])
      apply (rule exI)
      apply (rule exI [of _ "cache_set (clock ?s3) c2 key ?zcap"])
      apply (intro conjI)
            apply (rule run)
           apply (rule delegated_fields)
          apply (rule delegated_fields)
         apply (rule delegated_fields)
        apply simp
       apply (simp add: cache_get_fresh)
      apply (rule keyl)
      done
  qed
qed

theorem getCapability_result_by_invoker_witness:
  "(\<exists>zcap s'. getCapability sampleEnv (JStr ''profile-capability-invocation-key'') sampleAgent
        (JStr ''did:v1:test:abc'') JUndef sampleManager = (Inr zcap, s')
      \<and> fld zcap ''controller'' = JStr ''did:key:account1''
      \<and> fld zcap ''parentCapability'' = sampleInvocationKeyZcap)
   \<and> (\<exists>s'. getCapability sampleEnv (JStr ''profile-capability-invocation-key'') sampleAgent
        (JStr ''did:v1:test:abc'') (JStr ''agent'') sampleManager
        = (Inr sampleInvocationKeyZcap, s'))
   \<and> (\<exists>s'. getCapability sampleEnv (JStr ''profile-capability-invocation-key'') sampleAgent
        (JStr ''did:v1:test:abc'') (JStr ''profile'') sampleManager
        = (Inl (ErrorMsg ''Unsupported invoker for capability.''), s'))"
proof -
  let ?ck = "''profileAgent-'' @ toStr (fld sampleAgent ''id'') @ ''-zcaps''"
  let ?id = "JStr ''profile-capability-invocation-key''"
  let ?ref = "JStr ''did:v1:test:abc-key-capabilityInvocation''"
  let ?s0 = "snd (ensureNamespace ?ck None sampleManager)"
  let ?agentSigner = "JObj [(''capability'', JObj [(''id'', JStr ''urn:zcap:agent1'')]),
     (''invocationSigner'', JObj [(''id'', JStr ''did:key:account1'')])]"
  let ?s1 = "snd (getInvocationSigner sampleEnv (fld sampleAgent ''id'') (JStr ''agent'') ?s0)"
  let ?localSigner = "JObj [(''id'', JStr ''did:key:account1'')]"
  let ?s2 = "snd (getInvocationSigner sampleEnv JUndef (JStr ''local'') ?s1)"
  have agent: "\<not> nullish sampleAgent" by (simp add: sampleAgent_def)
  have signer: "getInvocationSigner sampleEnv (fld sampleAgent ''id'') (JStr ''agent'') ?s0
      = (Inr ?agentSigner, ?s1)"
    by (simp add: prod_eq_iff getInvocationSigner_def capabilityAgent_getSigner_def
        nonEmptyString_def run_defs newCache_def cache_get_def cache_lookup_def cache_set_def
        sampleEnv_def sampleManager_def sampleAgent_def Let_def)
  have local: "getInvocationSigner sampleEnv JUndef (JStr ''local'') ?s1
      = (Inr ?localSigner, ?s2)"
    by (simp add: prod_eq_iff getInvocationSigner_def capabilityAgent_getSigner_def
        nonEmptyString_def run_defs newCache_def cache_get_def cache_lookup_def cache_set_def
        sampleEnv_def sampleManager_def sampleAgent_def Let_def)
  have ref: "resolvesTo ?id (JStr ''did:v1:test:abc'') sampleAgent ?ref"
    by (simp add: resolvesTo_def PROFILE_INVOCATION_ZCAP_REFERENCE_ID_def sampleAgent_def
        startsWith_def endsWith_def)
  have base: "sampleInvocationKeyZcap = fld (fld sampleAgent ''zcaps'') (toStr ?ref)"
    "truthy sampleInvocationKeyZcap"
    by (simp_all add: sampleAgent_def sampleInvocationKeyZcap_def)
  have idle: "pm_requests sampleManager k = None" for k
    by (simp add: sampleManager_def)
  have miss: "\<forall>c. pm_cache sampleManager ?ck = Some c \<longrightarrow>
      \<not> truthy (cache_get (clock sampleManager) c k)" for k
    by (simp add: sampleManager_def)
  have proved: "respond sampleEnv h (DelegateCapability q)
      = Inr (JObj [(''type'', JStr ''Ed25519Signature2018'')])" for h q
    by (simp add: sampleEnv_def)
  have given: "getInvocationSigner sampleEnv JUndef (JStr ''local'') ?s1
        = (Inr ?localSigner, ?s2)
      \<and> \<not> nullish ?localSigner
      \<and> respond sampleEnv (calls ?s2) (DelegateCapability (JObj [
            (''signer'', ?agentSigner),
            (''request'', mkObj (spread sampleInvocationKeyZcap @ [
               (''parentCapability'', sampleInvocationKeyZcap),
               (''controller'', fld ?localSigner ''id'')]))]))
        = Inr (JObj [(''type'', JStr ''Ed25519Signature2018'')])"
    using local proved by simp
  note byLocal = getCapability_result_by_invoker [OF agent refl refl idle miss signer ref base,
      where invoker = JUndef, THEN conjunct2, THEN conjunct2, rule_format,
      OF disjI1 [OF refl] given]
  then obtain zcap s' where
    "getCapability sampleEnv ?id sampleAgent (JStr ''did:v1:test:abc'') JUndef
        sampleManager = (Inr zcap, s')"
    "fld zcap ''controller'' = fld ?localSigner ''id''"
    "fld zcap ''parentCapability'' = sampleInvocationKeyZcap"
    by blast
  then have "\<exists>zcap s'. getCapability sampleEnv ?id sampleAgent (JStr ''did:v1:test:abc'') JUndef
        sampleManager = (Inr zcap, s')
      \<and> fld zcap ''controller'' = JStr ''did:key:account1''
      \<and> fld zcap ''parentCapability'' = sampleInvocationKeyZcap"
    by auto
  moreover
  from getCapability_result_by_invoker [OF agent refl refl idle miss signer ref base,
      where invoker = "JStr ''agent''", THEN conjunct1, rule_format, OF refl]
  have "\<exists>s'. getCapability sampleEnv ?id sampleAgent (JStr ''did:v1:test:abc'') (JStr ''agent'')
        sampleManager = (Inr sampleInvocationKeyZcap, s')" .
  moreover
  from getCapability_result_by_invoker [OF agent refl refl idle miss signer ref base,
      where invoker = "JStr ''profile''", THEN conjunct2, THEN conjunct1]
  have "\<exists>s'. getCapability sampleEnv ?id sampleAgent (JStr ''did:v1:test:abc'')
        (JStr ''profile'') sampleManager
        = (Inl (ErrorMsg ''Unsupported invoker for capability.''), s')"
    by simp
  ultimately show ?thesis by simp
qed

subsection \<open>The result of initializing access management\<close>

lemma returnsD: "returns m Q \<Longrightarrow> m s = (Inr r, s') \<Longrightarrow> Q r"
  by (auto simp: returns_def)

lemma returns_ret: "Q x \<Longrightarrow> returns (ret x) Q"
  by (simp add: returns_def ret_def)

lemma returns_throw: "returns (throw e) Q"
  by (simp add: returns_def throw_def)

lemma returns_bnd:
  assumes "returns m R" and "\<And>x. R x \<Longrightarrow> returns (f x) Q"
  shows "returns (bnd m f) Q"
  unfolding returns_def
proof (intro allI impI)
  fix s r s'
  assume "bnd m f s = (Inr r, s')"
  then obtain x s1 where m: "m s = (Inr x, s1)" and f: "f x s1 = (Inr r, s')"
    by (auto simp: bnd_def split: prod.splits sum.splits)
  from assms(1) m have "R x" by (auto simp: returns_def)
  from assms(2) [OF this] f show "Q r" by (auto simp: returns_def)
qed

lemma returns_bnd_any: "(\<And>x. returns (f x) Q) \<Longrightarrow> returns (bnd m f) Q"
  by (auto simp: returns_def bnd_def split: prod.splits sum.splits)

lemma returns_if:
  "(c \<Longrightarrow> returns a Q) \<Longrightarrow> (\<not> c \<Longrightarrow> returns b Q) \<Longrightarrow> returns (if c then a else b) Q"
  by simp

lemma returns_typesOf: "returns (typesOf content) (\<lambda>ts. ts = callerTypes content)"
  by (auto simp: returns_def typesOf_def callerTypes_def getProp_def bnd_def ret_def throw_def
      dflt_def isArray_def elems_def split: if_splits jv.splits)

text \<open>The loop that builds a type array appends the types not yet present, in the order
  in which they are first seen.\<close>

lemma typesNotPresent_cong:
  "set a = set b \<Longrightarrow> typesNotPresent a ts = typesNotPresent b ts"
proof (induction ts arbitrary: a b)
  case Nil
  then show ?case by simp
next
  case (Cons t ts)
  from Cons.prems have "set (t # a) = set (t # b)" by simp
  from Cons.IH [OF this] Cons.IH [OF Cons.prems] Cons.prems show ?case by simp
qed

lemma pushTypes_first_seen: "pushTypes acc ts = acc @ typesNotPresent acc ts"
proof (induction ts arbitrary: acc)
  case Nil
  then show ?case by simp
next
  case (Cons t ts)
  have "typesNotPresent (acc @ [t]) ts = typesNotPresent (t # acc) ts"
    by (rule typesNotPresent_cong) auto
  then show ?case by (simp add: Cons.IH)
qed

lemma typesNotPresent_distinct: "distinct (typesNotPresent seen ts)"
  and typesNotPresent_set: "set (typesNotPresent seen ts) = set ts - set seen"
proof (induction ts arbitrary: seen)
  case Nil
  {
    case 1
    then show ?case by simp
  next
    case 2
    then show ?case by simp
  }
next
  case (Cons t ts)
  {
    case 1
    then show ?case using Cons.IH by auto
  next
    case 2
    then show ?case using Cons.IH(2) by auto
  }
qed

lemma foldl_update_nonempty:
  "acc \<noteq> [] \<Longrightarrow> foldl (\<lambda>acc kv. AList.update (fst kv) (snd kv) acc) acc kvs \<noteq> []"
proof (induction kvs arbitrary: acc)
  case Nil
  then show ?case by simp
next
  case (Cons kv kvs)
  have "AList.update (fst kv) (snd kv) acc \<noteq> []"
    by (cases acc) auto
  from Cons.IH [OF this] show ?case by simp
qed

lemma mkObj_cons_nonempty: "\<exists>m. mkObj (kv # kvs) = JObj m \<and> m \<noteq> []"
  by (simp add: mkObj_def foldl_update_nonempty)

lemma fld_mkObj_profile:
  "fld (mkObj (xs @ [(''id'', i), (''type'', t), (''accessManagement'', a), (''zcaps'', z)]))
     ''type'' = t"
  "fld (mkObj (xs @ [(''id'', i), (''type'', t), (''accessManagement'', a), (''zcaps'', z)]))
     ''accessManagement'' = a"
  by (simp_all add: fld_mkObj)

lemma fld_mkObj_agent_zcaps:
  "fld (mkObj (a # ys @ [(''id'', i), (''type'', t), (''zcaps'', z), (''authorizedDate'', d)]))
     ''zcaps'' = z"
  by (simp add: fld_mkObj)

lemma initializeAccessManagement_returns:
  assumes "truthy edvId" "truthy hmac" "truthy keyAgreementKey"
  shows "returns (initializeAccessManagement env profileId profileContent profileAgentContent
           hmac keyAgreementKey edvId capability revocationCapability indexes invoker)
         (bootstrapShape edvId profileContent)"
  unfolding initializeAccessManagement_def Let_def
  apply (rule returns_bnd_any)
  apply (simp add: assms split del: if_split cong: if_weak_cong)
  apply (rule returns_if)
   apply (rule returns_throw)
  apply (simp add: assms split del: if_split cong: if_weak_cong)
  apply (intro returns_bnd [OF returns_typesOf] returns_bnd_any)
  apply (rule returns_ret)
  apply (simp add: bootstrapShape_def fld_mkObj_profile fld_mkObj_agent_zcaps
      pushTypes_first_seen setProp_def update_conv' mkObj_cons_nonempty)
  done

text \<open>
  Claim C9. Whatever \<open>initializeAccessManagement\<close> returns for a call with an \<open>edvId\<close> and
  both recipient keys: the profile snapshot has \<open>accessManagement.edvId\<close> equal to the given
  \<open>edvId\<close>; its \<open>type\<close> is \<open>'User'\<close>, \<open>'Profile'\<close> and then each type the caller supplied in
  the profile content that is not already present, in first-seen order; the \<open>zcaps\<close> of the
  profile agent snapshot is a non-empty map.
\<close>

theorem initializeAccessManagement_snapshot_shape:
  assumes "truthy edvId" "truthy hmac" "truthy keyAgreementKey"
    and "initializeAccessManagement env profileId profileContent profileAgentContent
           hmac keyAgreementKey edvId capability revocationCapability indexes invoker s
         = (Inr res, s')"
  shows "fld (fld (fld res ''profile'') ''accessManagement'') ''edvId'' = edvId
      \<and> fld (fld res ''profile'') ''type'' =
          JArr ([JStr ''User'', JStr ''Profile'']
                @ typesNotPresent [JStr ''User'', JStr ''Profile''] (callerTypes profileContent))
      \<and> (\<exists>m. fld (fld res ''profileAgent'') ''zcaps'' = JObj m \<and> m \<noteq> [])"
  using returnsD [OF initializeAccessManagement_returns [OF assms(1-3)] assms(4)]
  by (simp add: bootstrapShape_def)

lemma sample_initializeAccessManagement:
  "\<exists>res. fst (initializeAccessManagement sampleEnv (JStr ''did:v1:test:abc'')
       (JObj [(''foo'', JBool True),
              (''type'', JArr [JStr ''Profile'', JStr ''Organization'', JStr ''Organization''])])
       JUndef sampleHmac sampleKak (JStr ''https://edvs/edv1'') JUndef JUndef JUndef JUndef
       sampleManager) = Inr res"
  by (simp add: initializeAccessManagement_def getProfileSigner_def method_defs run_defs
      sample_defs sampleHmac_def sampleKak_def Let_def iter_def typesOf_def isArray_def
      elems_def utils_delegateCapability_def delegateProfileUserDocZcap_def documentTarget_def
      delegateEdvCapabilities_def delegateAgentRecordZcaps_def keyResolver_def JWE_ALG_def
      PROFILE_INVOCATION_ZCAP_REFERENCE_ID_def EDVS_profileDoc_def EDVS_userKak_def
      startsWith_def endsWith_def mkObj_def setProp_def)

theorem initializeAccessManagement_snapshot_witness:
  "\<exists>res s'. initializeAccessManagement sampleEnv (JStr ''did:v1:test:abc'')
       (JObj [(''foo'', JBool True),
              (''type'', JArr [JStr ''Profile'', JStr ''Organization'', JStr ''Organization''])])
       JUndef sampleHmac sampleKak (JStr ''https://edvs/edv1'') JUndef JUndef JUndef JUndef
       sampleManager = (Inr res, s')
     \<and> fld (fld (fld res ''profile'') ''accessManagement'') ''edvId'' = JStr ''https://edvs/edv1''
     \<and> fld (fld res ''profile'') ''type''
         = JArr [JStr ''User'', JStr ''Profile'', JStr ''Organization'']
     \<and> (\<exists>m. fld (fld res ''profileAgent'') ''zcaps'' = JObj m \<and> m \<noteq> [])"
proof -
  let ?content = "JObj [(''foo'', JBool True),
              (''type'', JArr [JStr ''Profile'', JStr ''Organization'', JStr ''Organization''])]"
  obtain res s' where run: "initializeAccessManagement sampleEnv (JStr ''did:v1:test:abc'')
       ?content JUndef sampleHmac sampleKak (JStr ''https://edvs/edv1'') JUndef JUndef JUndef
       JUndef sampleManager = (Inr res, s')"
    using sample_initializeAccessManagement by (metis prod.collapse)
  have keys: "truthy (JStr ''https://edvs/edv1'')" "truthy sampleHmac" "truthy sampleKak"
    by (simp_all add: sampleHmac_def sampleKak_def)
  from initializeAccessManagement_snapshot_shape [OF keys run]
  have "fld (fld (fld res ''profile'') ''accessManagement'') ''edvId'' = JStr ''https://edvs/edv1''
     \<and> fld (fld res ''profile'') ''type''
         = JArr [JStr ''User'', JStr ''Profile'', JStr ''Organization'']
     \<and> (\<exists>m. fld (fld res ''profileAgent'') ''zcaps'' = JObj m \<and> m \<noteq> [])"
    by (simp add: callerTypes_def)
  with run show ?thesis by blast
qed

subsection \<open>Callers that share one promise\<close>

lemma getCapability_begin_idle:
  assumes "\<not> nullish profileAgent"
    and "ck = ''profileAgent-'' @ toStr (fld profileAgent ''id'') @ ''-zcaps''"
    and "key = ck @ ''-'' @ toStr zcapId @ ''-'' @ toStr (dflt invoker (JStr ''local''))"
    and "pm_requests s key = None"
    and "getCapability_body env ck key zcapId profileAgent profileId
           (dflt invoker (JStr ''local'')) (snd (ensureNamespace ck None s)) = (p, sB)"
  shows "getCapability_begin env zcapId profileAgent profileId invoker s =
           (Inr (key, Started p), sB\<lparr>pm_requests := (pm_requests sB)(key \<mapsto> p)\<rparr>)"
proof -
  have "pm_requests (snd (ensureNamespace ck None s)) key = None"
    using assms(4) by (simp add: ensureNamespace_run)
  then show ?thesis
    using assms(1,5) unfolding assms(2,3)
    by (simp add: getCapability_begin_def Let_def getProp_def bnd_def ret_def requestsGet_def
        reads_def startPromise_def requestsSet_def modify_def ensureNamespace_run
        split: if_splits)
qed

text \<open>A caller that finds the promise in flight returns it: it performs no collaborator
  operation and leaves the promises in flight as they are.\<close>

lemma getCapability_joins:
  assumes "\<not> nullish profileAgent"
    and "ck = ''profileAgent-'' @ toStr (fld profileAgent ''id'') @ ''-zcaps''"
    and "key = ck @ ''-'' @ toStr zcapId @ ''-'' @ toStr (dflt invoker (JStr ''local''))"
    and "pm_requests t key = Some p"
  shows "getCapability env zcapId profileAgent profileId invoker t =
           (p, snd (ensureNamespace ck None t))"
proof -
  have "pm_requests (snd (ensureNamespace ck None t)) key = Some p"
    using assms(4) by (simp add: ensureNamespace_run)
  then show ?thesis
    using assms(1) unfolding assms(2,3)
    by (simp add: getCapability_def getCapability_begin_def getCapability_end_def Let_def
        getProp_def bnd_def ret_def requestsGet_def reads_def settle_def ensureNamespace_run
        split: if_splits)
qed

lemma ensureNamespace_frame:
  "calls (snd (ensureNamespace ns age t)) = calls t"
  "pm_requests (snd (ensureNamespace ns age t)) = pm_requests t"
  "clock (snd (ensureNamespace ns age t)) = clock t"
  by (simp_all add: ensureNamespace_run)

lemma getCapability_joiners:
  assumes "\<not> nullish profileAgent"
    and "ck = ''profileAgent-'' @ toStr (fld profileAgent ''id'') @ ''-zcaps''"
    and "key = ck @ ''-'' @ toStr zcapId @ ''-'' @ toStr (dflt invoker (JStr ''local''))"
  shows "pm_requests t key = Some p \<Longrightarrow>
         allSettled (replicate n (getCapability env zcapId profileAgent profileId invoker)) t
           = (rs, t') \<Longrightarrow>
         rs = replicate n p \<and> calls t' = calls t \<and> pm_requests t' = pm_requests t"
proof (induction n arbitrary: t rs)
  case 0
  then show ?case by simp
next
  case (Suc n)
  let ?t1 = "snd (ensureNamespace ck None t)"
  have one: "getCapability env zcapId profileAgent profileId invoker t = (p, ?t1)"
    by (rule getCapability_joins [OF assms Suc.prems(1)])
  obtain rs' where rest:
    "allSettled (replicate n (getCapability env zcapId profileAgent profileId invoker)) ?t1
       = (rs', t')"
    and rs: "rs = p # rs'"
    using Suc.prems(2) one by (auto split: prod.splits)
  have "pm_requests ?t1 key = Some p"
    using Suc.prems(1) by (simp add: ensureNamespace_frame)
  from Suc.IH [OF this rest] rs show ?case
    by (simp add: ensureNamespace_frame)
qed

lemma getCapability_end_started:
  "getCapability_end (key, Started p) t = (p, t\<lparr>pm_requests := (pm_requests t)(key := None)\<rparr>)"
  by (simp add: getCapability_end_def tryFinally_def settle_def requestsDelete_def modify_def)

text \<open>The same for the agent records. Time only makes a cached record older.\<close>

lemma cache_get_later:
  "\<not> truthy (cache_get t c k) \<Longrightarrow> t \<le> t' \<Longrightarrow> \<not> truthy (cache_get t' c k)"
  by (auto simp: cache_get_def cache_lookup_def split: option.splits if_splits)

lemma getAgentRecord_begin_idle:
  assumes "key = ''agent-records-'' @ toStr profileId"
    and "pm_requests s key = None"
    and "\<forall>c. pm_cache s ''agent-records'' = Some c \<longrightarrow> \<not> truthy (cache_get (clock s) c key)"
    and "fetch = GetAgentByProfile (JObj [(''profile'', profileId), (''account'', accountId s)])"
  shows "\<exists>s1. getAgentRecord_begin env profileId s
           = (Inr (key, Started (respond env (calls s) fetch)), s1)
         \<and> calls s1 = calls s @ [fetch]
         \<and> pm_requests s1 key = Some (respond env (calls s) fetch)
         \<and> clock s \<le> clock s1
         \<and> (\<forall>c. pm_cache s1 ''agent-records'' = Some c \<longrightarrow>
               \<not> truthy (cache_get (clock s) c key))"
  using assms(2,3) unfolding assms(1,4)
  by (cases "pm_cache s ''agent-records''")
     (simp_all add: getAgentRecord_begin_def Let_def bnd_def ret_def requestsGet_def
        reads_def startPromise_def requestsSet_def modify_def ensureNamespace_run nsGet_def
        collab_run cache_get_new)

lemma getAgentRecord_joins:
  assumes "key = ''agent-records-'' @ toStr profileId"
    and "pm_requests t key = Some p"
    and "\<forall>c. pm_cache t ''agent-records'' = Some c \<longrightarrow> \<not> truthy (cache_get (clock t) c key)"
  shows "getAgentRecord env profileId t = (p, snd (ensureNamespace ''agent-records'' (Some 250) t))"
  using assms(2,3) unfolding assms(1)
  by (cases "pm_cache t ''agent-records''")
     (simp_all add: getAgentRecord_def getAgentRecord_begin_def getAgentRecord_end_def Let_def
        bnd_def ret_def requestsGet_def reads_def settle_def ensureNamespace_run nsGet_def
        cache_get_new)

lemma getAgentRecord_joiners:
  assumes "key = ''agent-records-'' @ toStr profileId"
  shows "pm_requests t key = Some p \<Longrightarrow>
         \<forall>c. pm_cache t ''agent-records'' = Some c \<longrightarrow> \<not> truthy (cache_get (clock t) c key) \<Longrightarrow>
         allSettled (replicate n (getAgentRecord env profileId)) t = (rs, t') \<Longrightarrow>
         rs = replicate n p \<and> calls t' = calls t \<and> pm_requests t' = pm_requests t"
proof (induction n arbitrary: t rs)
  case 0
  then show ?case by simp
next
  case (Suc n)
  let ?t1 = "snd (ensureNamespace ''agent-records'' (Some 250) t)"
  have one: "getAgentRecord env profileId t = (p, ?t1)"
    by (rule getAgentRecord_joins [OF assms Suc.prems(1,2)])
  obtain rs' where rest: "allSettled (replicate n (getAgentRecord env profileId)) ?t1 = (rs', t')"
    and rs: "rs = p # rs'"
    using Suc.prems(3) one by (auto split: prod.splits)
  have req: "pm_requests ?t1 key = Some p"
    using Suc.prems(1) by (simp add: ensureNamespace_frame)
  have stale: "\<forall>c. pm_cache ?t1 ''agent-records'' = Some c \<longrightarrow>
      \<not> truthy (cache_get (clock ?t1) c key)"
    using Suc.prems(2)
    by (cases "pm_cache t ''agent-records''") (simp_all add: ensureNamespace_run cache_get_new)
  from Suc.IH [OF req stale rest] rs show ?case
    by (simp add: ensureNamespace_frame)
qed

lemma getAgentRecord_end_started:
  "\<exists>t'. getAgentRecord_end (key, Started p) t = (p, t') \<and> pm_requests t' key = None
        \<and> calls t' = calls t"
  by (cases p)
     (auto simp: getAgentRecord_end_def tryFinally_def settle_def requestsDelete_def
        modify_def bnd_def nsSet_def ret_def split: option.splits)

text \<open>
  Claim C8. \<open>n + 1\<close> callers of \<open>getCapability\<close> with the same key, none being in flight
  before: the first runs up to its \<open>await\<close>, the \<open>n\<close> others call while the entry of the
  first is in flight, then the first resumes. The promise's body, which makes the
  delegation, is executed once: the collaborator operations of all the callers together are
  those of that one execution; every caller gets the outcome of that execution, a value or a
  rejection; the entry is in flight until the first resumes and is removed then, whatever
  the outcome. The same holds for \<open>n' + 1\<close> callers of \<open>_getAgentRecord\<close> for one profile
  with no fresh record cached: the backend is asked once and every caller gets its answer.
  (A promise is modelled with the outcome it settles to; the callers' steps are taken in
  the order given.)
\<close>

theorem concurrent_callers_share_one_execution:
  assumes agent: "\<not> nullish profileAgent"
    and ck: "ck = ''profileAgent-'' @ toStr (fld profileAgent ''id'') @ ''-zcaps''"
    and key: "key = ck @ ''-'' @ toStr zcapId @ ''-'' @ toStr (dflt invoker (JStr ''local''))"
    and idle: "pm_requests s key = None"
    and first: "getCapability_begin env zcapId profileAgent profileId invoker s = (b, s1)"
    and others: "allSettled (replicate n (getCapability env zcapId profileAgent profileId
                   invoker)) s1 = (rs, s2)"
    and last: "bnd (settle b) getCapability_end s2 = (r, s3)"
    and rkey: "recordKey = ''agent-records-'' @ toStr profileId'"
    and ridle: "pm_requests u recordKey = None"
    and rmiss: "\<forall>c. pm_cache u ''agent-records'' = Some c \<longrightarrow>
                  \<not> truthy (cache_get (clock u) c recordKey)"
    and rfirst: "getAgentRecord_begin env profileId' u = (b', u1)"
    and rothers: "allSettled (replicate n' (getAgentRecord env profileId')) u1 = (rs', u2)"
    and rlast: "bnd (settle b') getAgentRecord_end u2 = (r', u3)"
  shows
   "(\<exists>p sB. getCapability_body env ck key zcapId profileAgent profileId
               (dflt invoker (JStr ''local'')) (snd (ensureNamespace ck None s)) = (p, sB)
        \<and> calls s3 = calls sB
        \<and> r = p \<and> rs = replicate n p
        \<and> pm_requests s1 key = Some p \<and> pm_requests s2 key = Some p
        \<and> pm_requests s3 key = None)
    \<and> (\<exists>p fetch.
          fetch = GetAgentByProfile (JObj [(''profile'', profileId'), (''account'', accountId u)])
        \<and> p = respond env (calls u) fetch
        \<and> calls u3 = calls u @ [fetch]
        \<and> r' = p \<and> rs' = replicate n' p
        \<and> pm_requests u1 recordKey = Some p \<and> pm_requests u2 recordKey = Some p
        \<and> pm_requests u3 recordKey = None)"
proof (rule conjI)
  obtain p sB where body: "getCapability_body env ck key zcapId profileAgent profileId
               (dflt invoker (JStr ''local'')) (snd (ensureNamespace ck None s)) = (p, sB)"
    by (cases "getCapability_body env ck key zcapId profileAgent profileId
               (dflt invoker (JStr ''local'')) (snd (ensureNamespace ck None s))") blast
  from getCapability_begin_idle [OF agent ck key idle body] first
  have b: "b = Inr (key, Started p)"
    and s1: "s1 = sB\<lparr>pm_requests := (pm_requests sB)(key \<mapsto> p)\<rparr>"
    by simp_all
  have in1: "pm_requests s1 key = Some p" by (simp add: s1)
  from getCapability_joiners [OF agent ck key in1 others]
  have rs: "rs = replicate n p" and c2: "calls s2 = calls s1"
    and q2: "pm_requests s2 = pm_requests s1"
    by simp_all
  from last have "getCapability_end (key, Started p) s2 = (r, s3)"
    by (simp add: b bnd_def settle_def)
  then have r: "r = p" and s3: "s3 = s2\<lparr>pm_requests := (pm_requests s2)(key := None)\<rparr>"
    by (simp_all add: getCapability_end_started)
  show "\<exists>p sB. getCapability_body env ck key zcapId profileAgent profileId
               (dflt invoker (JStr ''local'')) (snd (ensureNamespace ck None s)) = (p, sB)
        \<and> calls s3 = calls sB
        \<and> r = p \<and> rs = replicate n p
        \<and> pm_requests s1 key = Some p \<and> pm_requests s2 key = Some p
        \<and> pm_requests s3 key = None"
    using body r rs in1 q2 c2 by (intro exI [of _ p] exI [of _ sB]) (simp add: s3 s1)
next
  let ?fetch = "GetAgentByProfile (JObj [(''profile'', profileId'), (''account'', accountId u)])"
  let ?p = "respond env (calls u) ?fetch"
  from getAgentRecord_begin_idle [OF rkey ridle rmiss refl, of env] rfirst
  have b: "b' = Inr (recordKey, Started ?p)"
    and c1: "calls u1 = calls u @ [?fetch]"
    and in1: "pm_requests u1 recordKey = Some ?p"
    and time: "clock u \<le> clock u1"
    and stale: "\<forall>c. pm_cache u1 ''agent-records'' = Some c \<longrightarrow>
                  \<not> truthy (cache_get (clock u) c recordKey)"
    by auto
  from stale time have stale1: "\<forall>c. pm_cache u1 ''agent-records'' = Some c \<longrightarrow>
                  \<not> truthy (cache_get (clock u1) c recordKey)"
    using cache_get_later [OF _ time] by blast
  from getAgentRecord_joiners [OF rkey in1 stale1 rothers]
  have rs: "rs' = replicate n' ?p" and c2: "calls u2 = calls u1"
    and q2: "pm_requests u2 = pm_requests u1"
    by simp_all
  from rlast have e: "getAgentRecord_end (recordKey, Started ?p) u2 = (r', u3)"
    by (simp add: b bnd_def settle_def)
  from getAgentRecord_end_started [of recordKey ?p u2] e
  have r: "r' = ?p" and q3: "pm_requests u3 recordKey = None" and c3: "calls u3 = calls u2"
    by auto
  show "\<exists>p fetch.
          fetch = GetAgentByProfile (JObj [(''profile'', profileId'), (''account'', accountId u)])
        \<and> p = respond env (calls u) fetch
        \<and> calls u3 = calls u @ [fetch]
        \<and> r' = p \<and> rs' = replicate n' p
        \<and> pm_requests u1 recordKey = Some p \<and> pm_requests u2 recordKey = Some p
        \<and> pm_requests u3 recordKey = None"
    using r rs in1 q2 q3 c1 c2 c3 by simp
qed

theorem concurrent_callers_witness:
  "(\<exists>p. fst (allSettled (replicate 2 (getCapability sampleEnv (JStr ''user-edv-kak'') sampleAgent
             JUndef JUndef))
           (snd (getCapability_begin sampleEnv (JStr ''user-edv-kak'') sampleAgent JUndef JUndef
             sampleManager))) = [p, p]
      \<and> fst (bnd (settle (fst (getCapability_begin sampleEnv (JStr ''user-edv-kak'') sampleAgent
                 JUndef JUndef sampleManager))) getCapability_end
           (snd (allSettled (replicate 2 (getCapability sampleEnv (JStr ''user-edv-kak'')
                 sampleAgent JUndef JUndef))
              (snd (getCapability_begin sampleEnv (JStr ''user-edv-kak'') sampleAgent JUndef
                 JUndef sampleManager))))) = p)
   \<and> (\<exists>p. fst (allSettled (replicate 2 (getAgentRecord sampleEnv (JStr ''did:v1:test:abc'')))
           (snd (getAgentRecord_begin sampleEnv (JStr ''did:v1:test:abc'') sampleManager)))
         = [p, p]
      \<and> p = Inr sampleAgentRecord
      \<and> calls (snd (bnd (settle (fst (getAgentRecord_begin sampleEnv (JStr ''did:v1:test:abc'')
               sampleManager))) getAgentRecord_end
           (snd (allSettled (replicate 2 (getAgentRecord sampleEnv (JStr ''did:v1:test:abc'')))
              (snd (getAgentRecord_begin sampleEnv (JStr ''did:v1:test:abc'') sampleManager))))))
         = [GetAgentByProfile (JObj [(''profile'', JStr ''did:v1:test:abc''),
              (''account'', JStr ''urn:uuid:account1'')])])"
proof -
  let ?key = "(''profileAgent-'' @ toStr (fld sampleAgent ''id'') @ ''-zcaps'') @ ''-''
      @ toStr (JStr ''user-edv-kak'') @ ''-'' @ toStr (dflt JUndef (JStr ''local''))"
  let ?begin = "getCapability_begin sampleEnv (JStr ''user-edv-kak'') sampleAgent JUndef JUndef
      sampleManager"
  let ?others = "allSettled (replicate 2 (getCapability sampleEnv (JStr ''user-edv-kak'')
      sampleAgent JUndef JUndef)) (snd ?begin)"
  let ?last = "bnd (settle (fst ?begin)) getCapability_end (snd ?others)"
  let ?rbegin = "getAgentRecord_begin sampleEnv (JStr ''did:v1:test:abc'') sampleManager"
  let ?rothers = "allSettled (replicate 2 (getAgentRecord sampleEnv (JStr ''did:v1:test:abc'')))
      (snd ?rbegin)"
  let ?rlast = "bnd (settle (fst ?rbegin)) getAgentRecord_end (snd ?rothers)"
  have agent: "\<not> nullish sampleAgent" by (simp add: sampleAgent_def)
  have idle: "pm_requests sampleManager k = None" for k by (simp add: sampleManager_def)
  have miss: "\<forall>c. pm_cache sampleManager ''agent-records'' = Some c \<longrightarrow>
      \<not> truthy (cache_get (clock sampleManager) c k)" for k
    by (simp add: sampleManager_def)
  note shared = concurrent_callers_share_one_execution [OF agent refl refl idle
      prod.collapse [symmetric, of ?begin] prod.collapse [symmetric, of ?others]
      prod.collapse [symmetric, of ?last] refl idle miss
      prod.collapse [symmetric, of ?rbegin] prod.collapse [symmetric, of ?rothers]
      prod.collapse [symmetric, of ?rlast]]
  from shared have "\<exists>p. fst ?others = [p, p] \<and> fst ?last = p"
    by (auto simp: numeral_2_eq_2)
  moreover from shared have "\<exists>p. fst ?rothers = [p, p] \<and> p = Inr sampleAgentRecord
      \<and> calls (snd ?rlast) = [GetAgentByProfile (JObj [(''profile'', JStr ''did:v1:test:abc''),
              (''account'', JStr ''urn:uuid:account1'')])]"
    by (auto simp: numeral_2_eq_2 sampleEnv_def sampleManager_def)
  ultimately show ?thesis by blast
qed

end
